theory Spec2Isabelle
  imports Complex_Main
begin

section \<open>Strings: the Python string operations the concierge uses\<close>

text \<open>
  \<^verbatim>\<open>s.replace(old, new)\<close> where \<open>old\<close> is a single character: every occurrence of the
  character is replaced, left to right.
\<close>

definition replace_chr :: "char \<Rightarrow> string \<Rightarrow> string \<Rightarrow> string" where
  "replace_chr old new s = concat (map (\<lambda>c. if c = old then new else [c]) s)"

text \<open>
  \<^verbatim>\<open>s.split(sep)\<close> for a single-character separator: always at least one component,
  empty components kept.
\<close>

fun py_split :: "char \<Rightarrow> string \<Rightarrow> string list" where
  "py_split sep [] = [[]]"
| "py_split sep (c # cs) =
     (if c = sep then [] # py_split sep cs
      else (case py_split sep cs of
              [] \<Rightarrow> [[c]]
            | w # ws \<Rightarrow> (c # w) # ws))"

text \<open>\<^verbatim>\<open>sep.join(parts)\<close>.\<close>

fun py_join :: "string \<Rightarrow> string list \<Rightarrow> string" where
  "py_join sep [] = []"
| "py_join sep [w] = w"
| "py_join sep (w # ws) = w @ sep @ py_join sep ws"

text \<open>\<^verbatim>\<open>needle in haystack\<close> on strings: a contiguous substring test.\<close>

fun starts_with :: "string \<Rightarrow> string \<Rightarrow> bool" where
  "starts_with [] s = True"
| "starts_with (p # ps) [] = False"
| "starts_with (p # ps) (c # cs) = (p = c \<and> starts_with ps cs)"

fun str_in :: "string \<Rightarrow> string \<Rightarrow> bool" where
  "str_in needle [] = (needle = [])"
| "str_in needle (c # cs) = (starts_with needle (c # cs) \<or> str_in needle cs)"

section \<open>Regular expressions: the fragment the concierge builds\<close>

text \<open>
  The concierge hands three kinds of text to \<^verbatim>\<open>Series.str.contains\<close> (a \<^verbatim>\<open>re.search\<close> on
  each cell): the translated channel pattern, an escaped file identifier and a raw file
  identifier. All of them are built from ordinary characters, \<^verbatim>\<open>\.\<close> (an escaped
  character), \<^verbatim>\<open>.\<close> (any character but a newline) and a following \<^verbatim>\<open>*\<close> (zero or more
  repetitions of the preceding item). The model covers exactly this fragment; the other
  metacharacters of \<^verbatim>\<open>re\<close> do not occur in SEED codes and are read as ordinary characters.
\<close>

datatype retok = RLit char | RAny | RStar

definition retok_of :: "char \<Rightarrow> retok" where
  "retok_of c = (if c = CHR ''.'' then RAny else if c = CHR ''*'' then RStar else RLit c)"

fun re_lex :: "string \<Rightarrow> retok list" where
  "re_lex [] = []"
| "re_lex [c] = [retok_of c]"
| "re_lex (c # d # ds) =
     (if c = CHR 0x5C then RLit d # re_lex ds else retok_of c # re_lex (d # ds))"

fun atom_ok :: "retok \<Rightarrow> char \<Rightarrow> bool" where
  "atom_ok (RLit a) c = (a = c)"
| "atom_ok RAny c = (c \<noteq> CHR 0x0A)"
| "atom_ok RStar c = False"

text \<open>Does some prefix of the text match the whole token list?\<close>

fun re_match_here :: "retok list \<Rightarrow> string \<Rightarrow> bool" where
  "re_match_here [] s = True"
| "re_match_here (a # RStar # ts) [] = re_match_here ts []"
| "re_match_here (a # RStar # ts) (c # cs) =
     (re_match_here ts (c # cs) \<or> (atom_ok a c \<and> re_match_here (a # RStar # ts) cs))"
| "re_match_here (a # ts) [] = False"
| "re_match_here (a # ts) (c # cs) = (atom_ok a c \<and> re_match_here ts cs)"

text \<open>\<^verbatim>\<open>re.search\<close>: a match may start at any position of the text.\<close>

fun re_search :: "retok list \<Rightarrow> string \<Rightarrow> bool" where
  "re_search ts [] = re_match_here ts []"
| "re_search ts (c # cs) = (re_match_here ts (c # cs) \<or> re_search ts cs)"

text \<open>\<^verbatim>\<open>Series.str.contains(pat)\<close> on one cell.\<close>

definition str_contains :: "string \<Rightarrow> string \<Rightarrow> bool" where
  "str_contains pat s = re_search (re_lex pat) s"

section \<open>Times\<close>

text \<open>
  An \<^verbatim>\<open>obspy.UTCDateTime\<close> is modelled by its count of microseconds since
  1970-01-01T00:00:00 (the class keeps times at that resolution). \<^verbatim>\<open>.julday\<close> is the day of
  the year, from 1; \<^verbatim>\<open>strftime('%Y.%j')\<close> prints the year and the zero-padded day of year.
\<close>

type_synonym utc = nat

definition usec_per_day :: nat where
  "usec_per_day = 86400 * 1000000"

definition leap_year :: "nat \<Rightarrow> bool" where
  "leap_year y = ((y mod 4 = 0 \<and> y mod 100 \<noteq> 0) \<or> y mod 400 = 0)"

definition days_in_year :: "nat \<Rightarrow> nat" where
  "days_in_year y = (if leap_year y then 366 else 365)"

function year_jday :: "nat \<Rightarrow> nat \<Rightarrow> nat \<times> nat" where
  "year_jday y d =
     (if d < days_in_year y then (y, d + 1) else year_jday (y + 1) (d - days_in_year y))"
  by pat_completeness auto
termination
  by (relation "measure (\<lambda>(y, d). d)") (auto simp: days_in_year_def)

declare year_jday.simps [simp del]

definition year_of :: "utc \<Rightarrow> nat" where
  "year_of t = fst (year_jday 1970 (t div usec_per_day))"

definition julday :: "utc \<Rightarrow> nat" where
  "julday t = snd (year_jday 1970 (t div usec_per_day))"

definition digit_chr :: "nat \<Rightarrow> char" where
  "digit_chr n = ''0123456789'' ! (n mod 10)"

definition strftime_Yj :: "utc \<Rightarrow> string" where
  "strftime_Yj t =
     (let y = year_of t; j = julday t
      in [digit_chr (y div 1000), digit_chr (y div 100), digit_chr (y div 10), digit_chr y,
          CHR ''.'',
          digit_chr (j div 100), digit_chr (j div 10), digit_chr j])"

section \<open>The availability dataframe\<close>

text \<open>
  A numeric cell of a dataframe: Python \<^verbatim>\<open>None\<close>, a float NaN, or a finite number.
\<close>

datatype pynum = PyNone | NaN | Num real

text \<open>
  One row of the availability dataframe, with the eighteen columns of
  \<^verbatim>\<open>get_availability\<close>. Rows added from a file listing alone carry \<^verbatim>\<open>None\<close> everywhere
  but in the four codes and \<open>snclId\<close>.
\<close>

record avail_row =
  network :: string
  station :: string
  location :: string
  channel :: string
  latitude :: pynum
  longitude :: pynum
  elevation :: pynum
  depth :: pynum
  azimuth :: pynum
  dip :: pynum
  instrument :: "string option"
  scale :: pynum
  scalefreq :: pynum
  scaleunits :: "string option"
  samplerate :: pynum
  starttime :: "utc option"
  endtime :: "utc option"
  snclId :: string

type_synonym dataframe = "avail_row list"

section \<open>Subsetting the dataframe by a channel pattern\<close>

text \<open>
  \<^verbatim>\<open>py_pattern = _sncl_pattern.replace('.','\\.').replace('*','.*').replace('?','.')\<close>
\<close>

definition py_pattern_of :: "string \<Rightarrow> string" where
  "py_pattern_of sncl_pattern =
     replace_chr (CHR ''?'') ''.''
       (replace_chr (CHR ''*'') ''.*''
          (replace_chr (CHR ''.'') [CHR 0x5C, CHR ''.''] sncl_pattern))"

text \<open>\<^verbatim>\<open>df = df[df.snclId.str.contains(py_pattern)]\<close>\<close>

definition subset_by_pattern :: "string \<Rightarrow> dataframe \<Rightarrow> dataframe" where
  "subset_by_pattern sncl_pattern df =
     filter (\<lambda>r. str_contains (py_pattern_of sncl_pattern) (snclId r)) df"

subsection \<open>The matcher of the specification\<close>

text \<open>
  The specification's matcher, written from its words for comparison with the code:
  within one component, a literal character matches itself, \<^verbatim>\<open>*\<close> any sequence and
  \<^verbatim>\<open>?\<close> exactly one character; pattern and identifier both have exactly four
  dot-separated components, which match pairwise and in full.
\<close>

fun spec_glob :: "string \<Rightarrow> string \<Rightarrow> bool" where
  "spec_glob [] s = (s = [])"
| "spec_glob (p # ps) [] = (p = CHR ''*'' \<and> spec_glob ps [])"
| "spec_glob (p # ps) (c # cs) =
     (if p = CHR ''*'' then spec_glob ps (c # cs) \<or> spec_glob (p # ps) cs
      else (p = CHR ''?'' \<or> p = c) \<and> spec_glob ps cs)"

definition spec_match :: "string \<Rightarrow> string \<Rightarrow> bool" where
  "spec_match pat ident =
     (let ps = py_split (CHR ''.'') pat; cs = py_split (CHR ''.'') ident
      in length ps = 4 \<and> length cs = 4 \<and> list_all2 spec_glob ps cs)"

text \<open>A row that carries only its codes, as the file scan adds it.\<close>

definition file_row :: "string \<Rightarrow> string \<Rightarrow> string \<Rightarrow> string \<Rightarrow> avail_row" where
  "file_row n s l c =
     \<lparr> network = n, station = s, location = l, channel = c,
       latitude = PyNone, longitude = PyNone, elevation = PyNone, depth = PyNone,
       azimuth = PyNone, dip = PyNone, instrument = None,
       scale = PyNone, scalefreq = PyNone, scaleunits = None,
       samplerate = PyNone, starttime = None, endtime = None,
       snclId = n @ ''.'' @ s @ ''.'' @ l @ ''.'' @ c \<rparr>"

section \<open>Errors, collaborators and the concierge object\<close>

text \<open>
  The exceptions that leave the modelled methods. \<open>ExternalError\<close> stands for an
  exception raised inside a collaborator (obspy, the R bridge) and not caught.
\<close>

datatype error =
    ValueError string
  | IndexError
  | AttributeError
  | UnboundLocalError string
  | TypeError
  | NoAvailableDataError string
  | PyException string
  | ExternalError string

subsection \<open>Station metadata as obspy delivers it\<close>

record inv_channel =
  ch_location_code :: string
  ch_code :: string
  ch_latitude :: pynum
  ch_longitude :: pynum
  ch_elevation :: pynum
  ch_depth :: pynum
  ch_azimuth :: pynum
  ch_dip :: pynum
  ch_sensor_description :: "string option"
  ch_sample_rate :: pynum
  ch_start_date :: utc
  ch_end_date :: utc

record inv_station =
  st_code :: string
  st_channels :: "inv_channel list"

record inv_network =
  nw_code :: string
  nw_stations :: "inv_station list"

type_synonym inventory = "inv_network list"

text \<open>The keyword arguments of \<^verbatim>\<open>station_client.get_stations\<close> (level is always "channel").\<close>

record station_query =
  q_starttime :: utc
  q_endtime :: utc
  q_network :: string
  q_station :: string
  q_location :: string
  q_channel :: string
  q_latitude :: "real option"
  q_longitude :: "real option"
  q_minradius :: "real option"
  q_maxradius :: "real option"

text \<open>
  The collaborators of \<^verbatim>\<open>get_availability\<close>, as functions of their arguments:
  \<^item> \<open>read_inventory\<close>: \<^verbatim>\<open>obspy.read_inventory\<close> on a path (\<open>None\<close>: it raised);
  \<^item> \<open>glob\<close>: \<^verbatim>\<open>glob.glob\<close> on the present file system;
  \<^item> \<open>get_stations\<close>: the FDSN station service behind a client (\<open>None\<close>: it raised);
  \<^item> \<open>dist_degrees\<close>: \<^verbatim>\<open>kilometer2degrees(gps2dist_azimuth(latitude, longitude, lat, lon)[0]/1000)\<close>
    from the reference point to a row's coordinates;
  \<^item> \<open>str_of_start\<close>: \<^verbatim>\<open>astype('str')\<close> on a cell of the starttime column.
\<close>

record world =
  read_inventory :: "string \<Rightarrow> inventory option"
  glob :: "string \<Rightarrow> string list"
  get_stations :: "string \<Rightarrow> station_query \<Rightarrow> inventory option"
  dist_degrees :: "real option \<Rightarrow> real option \<Rightarrow> real \<Rightarrow> real \<Rightarrow> error + real"
  str_of_start :: "utc option \<Rightarrow> string"

text \<open>The calls to collaborators a method makes, in order (a ghost field of the model).\<close>

datatype io_event = ReadInventory string | Glob string | GetStations station_query

text \<open>
  The fields of the \<^verbatim>\<open>Concierge\<close> object the modelled methods read or write. A client is
  represented by the service name or URL it was built from.
\<close>

record concierge =
  requested_starttime :: utc
  requested_endtime :: utc
  sncl_patterns :: "string list"
  dataselect_url :: string
  dataselect_client :: "string option"
  event_url :: "string option"
  event_client :: "string option"
  station_url :: "string option"
  station_client :: "string option"
  availability :: "dataframe option"
  filtered_availability :: "dataframe option"
  io_log :: "io_event list"

text \<open>The arguments of \<^verbatim>\<open>get_availability\<close> (\<^verbatim>\<open>includerestricted\<close> is never used).\<close>

record avail_args =
  arg_network :: "string option"
  arg_station :: "string option"
  arg_location :: "string option"
  arg_channel :: "string option"
  arg_starttime :: "utc option"
  arg_endtime :: "utc option"
  arg_latitude :: "real option"
  arg_longitude :: "real option"
  arg_minradius :: "real option"
  arg_maxradius :: "real option"

text \<open>"Allow arguments to override UserRequest parameters".\<close>

definition override :: "'a option \<Rightarrow> 'a \<Rightarrow> 'a" where
  "override arg dflt = (case arg of None \<Rightarrow> dflt | Some v \<Rightarrow> v)"

text \<open>
  \<^verbatim>\<open>(UR_network, UR_station, UR_location, UR_channel) = sncl_pattern.split('.')\<close>, whose
  failure is re-raised as a \<^verbatim>\<open>ValueError\<close>.
\<close>

definition parse_sncl_pattern :: "string \<Rightarrow> error + (string \<times> string \<times> string \<times> string)" where
  "parse_sncl_pattern sncl_pattern =
     (case py_split (CHR ''.'') sncl_pattern of
        [n, s, l, c] \<Rightarrow> Inr (n, s, l, c)
      | _ \<Rightarrow> Inl (ValueError (''Could not parse sncl_pattern '' @ sncl_pattern)))"

definition sncl_string :: "string \<Rightarrow> string \<Rightarrow> string \<Rightarrow> string \<Rightarrow> string" where
  "sncl_string n s l c = n @ ''.'' @ s @ ''.'' @ l @ ''.'' @ c"

text \<open>
  \<^verbatim>\<open>filepattern = self.dataselect_url + '/' + filename + '*'\<close> with
  \<^verbatim>\<open>filename = '%s.%s.%s.%s.%s' % (n, s, l, c, t.strftime('%Y.%j'))\<close>.
\<close>

definition filepattern_of :: "string \<Rightarrow> string \<Rightarrow> string \<Rightarrow> string \<Rightarrow> string \<Rightarrow> utc \<Rightarrow> string" where
  "filepattern_of url n s l c t =
     url @ ''/'' @ sncl_string n s l c @ ''.'' @ strftime_Yj t @ ''*''"

text \<open>One dataframe row per channel of an inventory that passes the epoch test.\<close>

definition channel_row :: "inv_network \<Rightarrow> inv_station \<Rightarrow> inv_channel \<Rightarrow> avail_row" where
  "channel_row n s c =
     \<lparr> network = nw_code n, station = st_code s, location = ch_location_code c,
       channel = ch_code c,
       latitude = ch_latitude c, longitude = ch_longitude c, elevation = ch_elevation c,
       depth = ch_depth c, azimuth = ch_azimuth c, dip = ch_dip c,
       instrument = ch_sensor_description c,
       scale = PyNone, scalefreq = PyNone, scaleunits = None,
       samplerate = ch_sample_rate c,
       starttime = Some (ch_start_date c), endtime = Some (ch_end_date c),
       snclId = sncl_string (nw_code n) (st_code s) (ch_location_code c) (ch_code c) \<rparr>"

definition inventory_rows :: "(inv_channel \<Rightarrow> bool) \<Rightarrow> inventory \<Rightarrow> dataframe" where
  "inventory_rows keep sncl_inventory =
     concat (map (\<lambda>n. concat (map (\<lambda>s. map (channel_row n s) (filter keep (st_channels s)))
                                   (nw_stations n))) sncl_inventory)"

section \<open>The steps of \<^verbatim>\<open>get_availability\<close>\<close>

subsection \<open>Restriction to locally available files\<close>

text \<open>
  \<^verbatim>\<open>re.match('[^\.]*\.[^\.]*\.[^\.]*\.[^\.]*', os.path.basename(f)).group(0)\<close>: the first
  four dot-separated components of the file name; with fewer than four there is no match
  and \<^verbatim>\<open>.group\<close> on \<^verbatim>\<open>None\<close> raises.
\<close>

definition basename :: "string \<Rightarrow> string" where
  "basename f = last (py_split (CHR ''/'') f)"

definition basename_sncl :: "string \<Rightarrow> error + string" where
  "basename_sncl f =
     (case py_split (CHR ''.'') (basename f) of
        n # s # l # c # _ \<Rightarrow> Inr (sncl_string n s l c)
      | _ \<Rightarrow> Inl AttributeError)"

text \<open>
  The mask starts as \<^verbatim>\<open>df.snclId.str.contains("MASK WITH ALL FALSE")\<close> and is or-ed, file
  by file, with \<^verbatim>\<open>df.snclId.str.contains(sncl.replace('.','\\.'))\<close>.
\<close>

fun build_mask :: "string list \<Rightarrow> dataframe \<Rightarrow> bool list \<Rightarrow> error + bool list" where
  "build_mask [] df msk = Inr msk"
| "build_mask (f # fs) df msk =
     (case basename_sncl f of
        Inl e \<Rightarrow> Inl e
      | Inr sncl \<Rightarrow>
          build_mask fs df
            (map2 (\<or>) msk
               (map (\<lambda>r. str_contains (replace_chr (CHR ''.'') [CHR 0x5C, CHR ''.''] sncl)
                                        (snclId r)) df)))"

definition apply_mask :: "dataframe \<Rightarrow> bool list \<Rightarrow> dataframe" where
  "apply_mask df msk = map fst (filter snd (zip df msk))"

definition subset_by_files :: "string list \<Rightarrow> dataframe \<Rightarrow> error + dataframe" where
  "subset_by_files matching_files df =
     (case build_mask matching_files df
             (map (\<lambda>r. str_contains ''MASK WITH ALL FALSE'' (snclId r)) df) of
        Inl e \<Rightarrow> Inl e
      | Inr msk \<Rightarrow> Inr (apply_mask df msk))"

subsection \<open>Restriction by distance\<close>

text \<open>Python truthiness of a numeric cell: \<^verbatim>\<open>None\<close> and zero are false, NaN is true.\<close>

fun truthy :: "pynum \<Rightarrow> bool" where
  "truthy PyNone = False"
| "truthy NaN = True"
| "truthy (Num x) = (x \<noteq> 0)"

text \<open>The three-way test on \<^verbatim>\<open>abs(dist)\<close>; the loop runs only when a radius is given.\<close>

definition radius_test :: "real option \<Rightarrow> real option \<Rightarrow> real \<Rightarrow> bool" where
  "radius_test minradius maxradius d =
     (case (minradius, maxradius) of
        (None, Some mx) \<Rightarrow> \<bar>d\<bar> \<le> mx
      | (Some mn, None) \<Rightarrow> \<bar>d\<bar> \<ge> mn
      | (Some mn, Some mx) \<Rightarrow> \<bar>d\<bar> \<le> mx \<and> \<bar>d\<bar> \<ge> mn
      | (None, None) \<Rightarrow> False)"

text \<open>
  One pass of the loop body for a row: \<open>Inr True\<close> when the row's \<open>dist\<close> cell is set to
  "KEEP", \<open>Inr False\<close> when it stays "EMPTY", \<open>Inl\<close> when the distance computation raises.
\<close>

definition mark_keep :: "world \<Rightarrow> avail_args \<Rightarrow> avail_row \<Rightarrow> error + bool" where
  "mark_keep w a r =
     (if truthy (latitude r) \<and> truthy (longitude r) then
        (case (latitude r, longitude r) of
           (Num lat, Num lon) \<Rightarrow>
             (case dist_degrees w (arg_latitude a) (arg_longitude a) lat lon of
                Inl e \<Rightarrow> Inl e
              | Inr d \<Rightarrow> Inr (radius_test (arg_minradius a) (arg_maxradius a) d))
         | _ \<Rightarrow> Inr False)
      else Inr False)"

fun mark_rows :: "world \<Rightarrow> avail_args \<Rightarrow> dataframe \<Rightarrow> error + bool list" where
  "mark_rows w a [] = Inr []"
| "mark_rows w a (r # rs) =
     (case mark_keep w a r of
        Inl e \<Rightarrow> Inl e
      | Inr k \<Rightarrow> (case mark_rows w a rs of Inl e \<Rightarrow> Inl e | Inr ks \<Rightarrow> Inr (k # ks)))"

definition subset_by_distance :: "world \<Rightarrow> avail_args \<Rightarrow> dataframe \<Rightarrow> error + dataframe" where
  "subset_by_distance w a df =
     (if arg_maxradius a \<noteq> None \<or> arg_minradius a \<noteq> None then
        (case mark_rows w a df of
           Inl e \<Rightarrow> Inl e
         | Inr ks \<Rightarrow> Inr (apply_mask df ks))
      else Inr df)"

subsection \<open>Merging the per-pattern dataframes\<close>

text \<open>
  \<^verbatim>\<open>drop_duplicates(['snclId', 'start'])\<close>, where \<open>start\<close> is the starttime column as
  strings: the first row of every key is kept.
\<close>

definition dup_key :: "world \<Rightarrow> avail_row \<Rightarrow> string \<times> string" where
  "dup_key w r = (snclId r, str_of_start w (starttime r))"

fun drop_duplicates :: "('a \<Rightarrow> 'k) \<Rightarrow> 'k list \<Rightarrow> 'a list \<Rightarrow> 'a list" where
  "drop_duplicates key seen [] = []"
| "drop_duplicates key seen (r # rs) =
     (if key r \<in> set seen then drop_duplicates key seen rs
      else r # drop_duplicates key (key r # seen) rs)"

definition merge_availability :: "world \<Rightarrow> dataframe list \<Rightarrow> dataframe" where
  "merge_availability w sncl_pattern_dataframes =
     drop_duplicates (dup_key w) [] (concat sncl_pattern_dataframes)"

section \<open>\<^verbatim>\<open>Concierge.get_availability\<close>\<close>

subsection \<open>Building the local availability dataframe\<close>

text \<open>
  \<^verbatim>\<open>fileSNCL = _file.split("/")[-1]\<close> and its first four dot-separated components; an index
  beyond the components raises \<^verbatim>\<open>IndexError\<close>.
\<close>

definition file_codes :: "string \<Rightarrow> error + (string \<times> string \<times> string \<times> string)" where
  "file_codes f =
     (case py_split (CHR ''.'') (last (py_split (CHR ''/'') f)) of
        n # s # l # c # _ \<Rightarrow> Inr (n, s, l, c)
      | _ \<Rightarrow> Inl IndexError)"

text \<open>
  The loop over the matching files: a file whose identifier is not found in the \<open>snclId\<close>
  column (\<^verbatim>\<open>str.contains\<close> with the raw identifier as the expression) adds a row of codes.
  The dataframe is changed in place, so on an exception the rows added so far remain.
\<close>

fun add_file_rows :: "string list \<Rightarrow> dataframe \<Rightarrow> error option \<times> dataframe" where
  "add_file_rows [] df = (None, df)"
| "add_file_rows (f # fs) df =
     (case file_codes f of
        Inl e \<Rightarrow> (Some e, df)
      | Inr (n, s, l, c) \<Rightarrow>
          add_file_rows fs
            (if \<not> list_ex (\<lambda>r. str_contains (sncl_string n s l c) (snclId r)) df
             then df @ [file_row n s l c] else df))"

text \<open>
  The loop over \<^verbatim>\<open>self.sncl_patterns\<close> inside the build. \<open>stored\<close> tells whether
  \<^verbatim>\<open>self.availability = df\<close> has been executed: from then on the attribute and \<open>df\<close> are
  the same object, so later rows show in the attribute too. A pattern without matching
  files takes the \<^verbatim>\<open>continue\<close> and skips the assignment.
\<close>

fun build_loop ::
  "world \<Rightarrow> avail_args \<Rightarrow> concierge \<Rightarrow> utc \<Rightarrow> string list \<Rightarrow> dataframe \<Rightarrow> bool \<Rightarrow> io_event list
   \<Rightarrow> error option \<times> dataframe \<times> bool \<times> io_event list" where
  "build_loop w a s t0 [] df stored lg = (None, df, stored, lg)"
| "build_loop w a s t0 (sncl_pattern # rest) df stored lg =
     (case parse_sncl_pattern sncl_pattern of
        Inl e \<Rightarrow> (Some e, df, stored, lg)
      | Inr (UR_network, UR_station, UR_location, UR_channel) \<Rightarrow>
          (if dataselect_client s = None then
             (let filepattern = filepattern_of (dataselect_url s)
                                  (override (arg_network a) UR_network)
                                  (override (arg_station a) UR_station)
                                  (override (arg_location a) UR_location)
                                  (override (arg_channel a) UR_channel) t0;
                  matching_files = glob w filepattern;
                  lg1 = lg @ [Glob filepattern]
              in if matching_files = [] then build_loop w a s t0 rest df stored lg1
                 else (case add_file_rows matching_files df of
                         (Some e, df1) \<Rightarrow> (Some e, df1, stored, lg1)
                       | (None, df1) \<Rightarrow> build_loop w a s t0 rest df1 True lg1))
           else build_loop w a s t0 rest df True lg))"

text \<open>
  \<^verbatim>\<open>obspy.read_inventory(self.station_url)\<close> when a station URL is configured; any exception
  becomes a \<^verbatim>\<open>ValueError\<close>.
\<close>

definition read_station_metadata ::
  "world \<Rightarrow> concierge \<Rightarrow> (error + inventory option) \<times> io_event list" where
  "read_station_metadata w s =
     (case station_url s of
        None \<Rightarrow> (Inr None, io_log s)
      | Some url \<Rightarrow>
          (case read_inventory w url of
             None \<Rightarrow> Inl (ValueError (''The StationXML file: '' @ [CHR 0x27] @ url @ [CHR 0x27]
                                        @ '' is not valid''))
           | Some i \<Rightarrow> Inr (Some i),
           io_log s @ [ReadInventory url]))"

text \<open>
  The first part of \<^verbatim>\<open>get_availability\<close>: with local station metadata and no stored
  dataframe, read the metadata, keep the channels whose epoch overlaps the window, add the
  local files and store the dataframe. Otherwise nothing is done.
\<close>

definition build_availability :: "world \<Rightarrow> avail_args \<Rightarrow> concierge \<Rightarrow> error option \<times> concierge" where
  "build_availability w a s =
     (if station_client s = None \<and> availability s = None then
        (case read_station_metadata w s of
           (Inl e, lg) \<Rightarrow> (Some e, s\<lparr>io_log := lg\<rparr>)
         | (Inr sncl_inventory, lg) \<Rightarrow>
             (let t0 = override (arg_starttime a) (requested_starttime s);
                  t1 = override (arg_endtime a) (requested_endtime s);
                  df = (case sncl_inventory of
                          None \<Rightarrow> []
                        | Some i \<Rightarrow>
                            inventory_rows (\<lambda>c. ch_start_date c < t1 \<and> ch_end_date c > t0) i)
              in (case build_loop w a s t0 (sncl_patterns s) df False lg of
                    (err, df1, stored, lg1) \<Rightarrow>
                      (err, s\<lparr>availability := (if stored then Some df1 else None),
                               io_log := lg1\<rparr>))))
      else (None, s))"

subsection \<open>The loop over the channel patterns\<close>

text \<open>
  "Get availability dataframe": the stored dataframe when the station metadata is local
  (\<open>None\<close>: nothing is stored and the pattern is passed over), otherwise one
  \<^verbatim>\<open>get_stations\<close> request, whose failure passes the pattern over as well.
\<close>

definition fetch_dataframe ::
  "world \<Rightarrow> concierge \<Rightarrow> station_query \<Rightarrow> io_event list \<Rightarrow> dataframe option \<times> io_event list" where
  "fetch_dataframe w s q lg =
     (case station_client s of
        None \<Rightarrow> (availability s, lg)
      | Some client \<Rightarrow>
          (case get_stations w client q of
             None \<Rightarrow> None
           | Some sncl_inventory \<Rightarrow> Some (inventory_rows (\<lambda>c. True) sncl_inventory),
           lg @ [GetStations q]))"

text \<open>
  "Subset based on locally available data": only with a local waveform directory. No
  matching file passes the pattern over.
\<close>

definition restrict_to_local_files ::
  "world \<Rightarrow> concierge \<Rightarrow> string \<Rightarrow> dataframe \<Rightarrow> io_event list
   \<Rightarrow> (error + dataframe option) \<times> io_event list" where
  "restrict_to_local_files w s filepattern df lg =
     (if dataselect_client s = None then
        (let matching_files = glob w filepattern
         in (if matching_files = [] then Inr None
             else (case subset_by_files matching_files df of
                     Inl e \<Rightarrow> Inl e
                   | Inr df1 \<Rightarrow> Inr (Some df1)),
             lg @ [Glob filepattern]))
      else (Inr (Some df), lg))"

text \<open>
  The body of the loop after the \<open>loopCounter\<close> test, for one pattern: \<open>Inr (Some df)\<close>
  when a non-empty dataframe is appended to \<^verbatim>\<open>sncl_pattern_dataframes\<close>, \<open>Inr None\<close> when
  the pattern contributes nothing (a \<^verbatim>\<open>continue\<close>, or an empty dataframe), \<open>Inl\<close> when an
  exception leaves the method.
\<close>

definition pattern_dataframe ::
  "world \<Rightarrow> avail_args \<Rightarrow> concierge \<Rightarrow> string \<Rightarrow> io_event list
   \<Rightarrow> (error + dataframe option) \<times> io_event list" where
  "pattern_dataframe w a s sncl_pattern lg =
     (case parse_sncl_pattern sncl_pattern of
        Inl e \<Rightarrow> (Inl e, lg)
      | Inr (UR_network, UR_station, UR_location, UR_channel) \<Rightarrow>
          (let t0 = override (arg_starttime a) (requested_starttime s);
               t1 = override (arg_endtime a) (requested_endtime s);
               net = override (arg_network a) UR_network;
               sta = override (arg_station a) UR_station;
               loc = override (arg_location a) UR_location;
               cha = override (arg_channel a) UR_channel;
               q = \<lparr> q_starttime = t0, q_endtime = t1,
                     q_network = net, q_station = sta, q_location = loc, q_channel = cha,
                     q_latitude = arg_latitude a, q_longitude = arg_longitude a,
                     q_minradius = arg_minradius a, q_maxradius = arg_maxradius a \<rparr>
           in (case fetch_dataframe w s q lg of
                 (None, lg1) \<Rightarrow> (Inr None, lg1)
               | (Some df, lg1) \<Rightarrow>
                   (case restrict_to_local_files w s
                           (filepattern_of (dataselect_url s) net sta loc cha t0)
                           (subset_by_pattern (sncl_string net sta loc cha) df) lg1 of
                      (Inl e, lg2) \<Rightarrow> (Inl e, lg2)
                    | (Inr None, lg2) \<Rightarrow> (Inr None, lg2)
                    | (Inr (Some df1), lg2) \<Rightarrow>
                        (case subset_by_distance w a df1 of
                           Inl e \<Rightarrow> (Inl e, lg2)
                         | Inr df2 \<Rightarrow> (Inr (if df2 = [] then None else Some df2), lg2))))))"

text \<open>
  The loop itself. \<open>loopCounter\<close> is the counter before the iteration; the iteration
  increments it first and, when the \<^emph>\<open>arguments\<close> network, station and location are all
  \<^verbatim>\<open>"*"\<close> and this is not the first iteration, goes on to the next pattern at once.
\<close>

fun availability_loop ::
  "world \<Rightarrow> avail_args \<Rightarrow> concierge \<Rightarrow> nat \<Rightarrow> string list \<Rightarrow> dataframe list \<Rightarrow> io_event list
   \<Rightarrow> (error + dataframe list) \<times> io_event list" where
  "availability_loop w a s loopCounter [] sncl_pattern_dataframes lg =
     (Inr sncl_pattern_dataframes, lg)"
| "availability_loop w a s loopCounter (sncl_pattern # rest) sncl_pattern_dataframes lg =
     (if arg_network a = Some ''*'' \<and> arg_station a = Some ''*'' \<and> arg_location a = Some ''*''
         \<and> loopCounter + 1 > 1
      then availability_loop w a s (loopCounter + 1) rest sncl_pattern_dataframes lg
      else (case pattern_dataframe w a s sncl_pattern lg of
              (Inl e, lg1) \<Rightarrow> (Inl e, lg1)
            | (Inr None, lg1) \<Rightarrow>
                availability_loop w a s (loopCounter + 1) rest sncl_pattern_dataframes lg1
            | (Inr (Some df), lg1) \<Rightarrow>
                availability_loop w a s (loopCounter + 1) rest
                  (sncl_pattern_dataframes @ [df]) lg1))"

subsection \<open>The method\<close>

text \<open>
  \<^verbatim>\<open>get_availability\<close>: the build, the loop, and the merge. With no dataframe appended the
  method logs a message and falls off its end, which returns \<^verbatim>\<open>None\<close> (both
  \<^verbatim>\<open>raise NoAvailableDataError\<close> statements are commented out); otherwise the merged
  dataframe is remembered in \<^verbatim>\<open>filtered_availability\<close> and returned.
\<close>

definition get_availability ::
  "world \<Rightarrow> avail_args \<Rightarrow> concierge \<Rightarrow> (error + dataframe option) \<times> concierge" where
  "get_availability w a s =
     (case build_availability w a s of
        (Some e, s1) \<Rightarrow> (Inl e, s1)
      | (None, s1) \<Rightarrow>
          (case availability_loop w a s1 0 (sncl_patterns s1) [] (io_log s1) of
             (Inl e, lg) \<Rightarrow> (Inl e, s1\<lparr>io_log := lg\<rparr>)
           | (Inr sncl_pattern_dataframes, lg) \<Rightarrow>
               (if sncl_pattern_dataframes = [] then (Inr None, s1\<lparr>io_log := lg\<rparr>)
                else (let merged = merge_availability w sncl_pattern_dataframes
                      in if merged = [] then (Inr None, s1\<lparr>io_log := lg\<rparr>)
                         else (Inr (Some merged),
                               s1\<lparr>filtered_availability := Some merged, io_log := lg\<rparr>)))))"

section \<open>Example inputs\<close>

text \<open>
  Concrete collaborators and rows on which the theorems below are exercised. The example
  distance is the sum of the coordinate differences, which is enough to try the
  comparisons of the filter.
\<close>

definition example_world :: world where
  "example_world =
     \<lparr> read_inventory = (\<lambda>_. None),
       glob = (\<lambda>_. []),
       get_stations = (\<lambda>_ _. None),
       dist_degrees = (\<lambda>rlat rlon lat lon.
          case (rlat, rlon) of
            (Some a, Some b) \<Rightarrow> Inr (\<bar>lat - a\<bar> + \<bar>lon - b\<bar>)
          | _ \<Rightarrow> Inl TypeError),
       str_of_start = (\<lambda>t. case t of None \<Rightarrow> ''None'' | Some n \<Rightarrow> strftime_Yj n) \<rparr>"

definition row_at :: "string \<Rightarrow> pynum \<Rightarrow> pynum \<Rightarrow> avail_row" where
  "row_at c lat lon = (file_row ''IU'' ''ANMO'' ''00'' c)\<lparr> latitude := lat, longitude := lon \<rparr>"

definition radius_args :: "real option \<Rightarrow> real option \<Rightarrow> avail_args" where
  "radius_args mn mx =
     \<lparr> arg_network = None, arg_station = None, arg_location = None, arg_channel = None,
       arg_starttime = None, arg_endtime = None,
       arg_latitude = Some 0, arg_longitude = Some 0,
       arg_minradius = mn, arg_maxradius = mx \<rparr>"

definition no_args :: avail_args where
  "no_args =
     \<lparr> arg_network = None, arg_station = None, arg_location = None, arg_channel = None,
       arg_starttime = None, arg_endtime = None,
       arg_latitude = None, arg_longitude = None,
       arg_minradius = None, arg_maxradius = None \<rparr>"

definition local_world :: world where
  "local_world =
     \<lparr> read_inventory = (\<lambda>_. None),
       glob = (\<lambda>p. if p = ''/data/IU.ANMO.00.BHZ.2013.001*''
                    then [''/data/IU.ANMO.00.BHZ.2013.001.M''] else []),
       get_stations = (\<lambda>_ _. None),
       dist_degrees = (\<lambda>_ _ _ _. Inl TypeError),
       str_of_start = (\<lambda>t. case t of None \<Rightarrow> ''None'' | Some n \<Rightarrow> strftime_Yj n) \<rparr>"

definition local_concierge :: concierge where
  "local_concierge =
     \<lparr> requested_starttime = 1356998400000000,
       requested_endtime = 1357084800000000,
       sncl_patterns = [''IU.ANMO.00.BHZ''],
       dataselect_url = ''/data'', dataselect_client = None,
       event_url = None, event_client = None,
       station_url = None, station_client = None,
       availability = None, filtered_availability = None,
       io_log = [] \<rparr>"

definition local_catalog :: dataframe where
  "local_catalog = [file_row ''IU'' ''ANMO'' ''00'' ''BHZ'']"


definition nofile_concierge :: concierge where
  "nofile_concierge = local_concierge\<lparr> sncl_patterns := [''IU.ANMO.00.LHZ''] \<rparr>"

definition remote_channel :: "string \<Rightarrow> inv_channel" where
  "remote_channel cha =
     \<lparr> ch_location_code = ''00'', ch_code = cha,
       ch_latitude = Num 34.9, ch_longitude = Num (-106.5), ch_elevation = Num 1850,
       ch_depth = Num 100, ch_azimuth = Num 0, ch_dip = Num (-90),
       ch_sensor_description = Some ''STS-2'', ch_sample_rate = Num 20,
       ch_start_date = 1200000000000000, ch_end_date = 1500000000000000 \<rparr>"

definition remote_station :: "string \<Rightarrow> inv_station" where
  "remote_station cha = \<lparr> st_code = ''ANMO'', st_channels = [remote_channel cha] \<rparr>"

definition remote_network :: "string \<Rightarrow> inv_network" where
  "remote_network cha = \<lparr> nw_code = ''IU'', nw_stations = [remote_station cha] \<rparr>"

definition remote_row :: "string \<Rightarrow> avail_row" where
  "remote_row cha = channel_row (remote_network cha) (remote_station cha) (remote_channel cha)"

definition remote_world :: world where
  "remote_world =
     \<lparr> read_inventory = (\<lambda>_. None),
       glob = (\<lambda>_. []),
       get_stations = (\<lambda>client q. Some [remote_network (q_channel q)]),
       dist_degrees = (\<lambda>_ _ _ _. Inl TypeError),
       str_of_start = (\<lambda>t. case t of None \<Rightarrow> ''None'' | Some n \<Rightarrow> strftime_Yj n) \<rparr>"

definition remote_concierge :: concierge where
  "remote_concierge =
     \<lparr> requested_starttime = 1356998400000000,
       requested_endtime = 1357084800000000,
       sncl_patterns = [''*.*.*.BHZ'', ''*.*.*.LHZ''],
       dataselect_url = ''http://service.iris.edu'', dataselect_client = Some ''IRIS'',
       event_url = Some ''http://earthquake.usgs.gov'', event_client = Some ''USGS'',
       station_url = Some ''http://service.iris.edu'', station_client = Some ''IRIS'',
       availability = None, filtered_availability = None,
       io_log = [] \<rparr>"

definition star_args :: avail_args where
  "star_args = no_args\<lparr> arg_network := Some ''*'', arg_station := Some ''*'',
                         arg_location := Some ''*'' \<rparr>"

definition remote_query :: "string \<Rightarrow> string \<Rightarrow> station_query" where
  "remote_query net cha =
     \<lparr> q_starttime = 1356998400000000, q_endtime = 1357084800000000,
       q_network = net, q_station = net, q_location = net, q_channel = cha,
       q_latitude = None, q_longitude = None, q_minradius = None, q_maxradius = None \<rparr>"

text \<open>
  What \<^verbatim>\<open>Concierge.__init__\<close> consults to place a data source: obspy's table of service
  names \<^verbatim>\<open>URL_MAPPINGS\<close>, \<^verbatim>\<open>os.path.exists\<close> and \<^verbatim>\<open>os.path.abspath\<close>.
\<close>

record init_env =
  URL_MAPPINGS :: "string \<rightharpoonup> string"
  path_exists :: "string \<Rightarrow> bool"
  abspath :: "string \<Rightarrow> string"

text \<open>The three source settings of the user request; \<open>None\<close> is Python's \<^verbatim>\<open>None\<close>.\<close>

record user_request =
  ur_dataselect_url :: "string option"
  ur_event_url :: "string option"
  ur_station_url :: "string option"

text \<open>
  The six attributes the constructor sets. A client is represented by the name or URL
  handed to \<^verbatim>\<open>Client(...)\<close>, whose construction is taken to succeed.
\<close>

record endpoints =
  ep_dataselect_url :: string
  ep_dataselect_client :: "string option"
  ep_event_url :: "string option"
  ep_event_client :: "string option"
  ep_station_url :: "string option"
  ep_station_client :: "string option"

text \<open>Python's \<^verbatim>\<open>a or b\<close> on strings: \<open>a\<close> unless it is empty.\<close>

definition py_or :: "string \<Rightarrow> string \<Rightarrow> string" where
  "py_or a b = (if a \<noteq> [] then a else b)"

text \<open>
  The chain shared by the three settings, for a value that is not \<^verbatim>\<open>None\<close>:
  \<^verbatim>\<open>if url in URL_MAPPINGS.keys(): ... elif ("http://" or "https://") in url: ... else: ...\<close>
  The result is the stored URL and the client, if any.
\<close>

definition locate_source :: "init_env \<Rightarrow> string \<Rightarrow> string \<Rightarrow> error + (string \<times> string option)" where
  "locate_source env setting url =
     (case URL_MAPPINGS env url of
        Some mapped \<Rightarrow> Inr (mapped, Some url)
      | None \<Rightarrow>
          (if str_in (py_or ''http://'' ''https://'') url then Inr (url, Some url)
           else if path_exists env (abspath env url) then Inr (abspath env url, None)
           else Inl (ValueError (''Cannot find preference file '' @ setting @ '': ''
                                 @ [CHR 0x27] @ url @ [CHR 0x27]))))"

text \<open>
  The constructor's three blocks, in order. The dataselect block has no test for
  \<^verbatim>\<open>None\<close>: there \<^verbatim>\<open>"http://" in None\<close> raises a \<^verbatim>\<open>TypeError\<close>.
\<close>

definition init_endpoints :: "init_env \<Rightarrow> user_request \<Rightarrow> error + endpoints" where
  "init_endpoints env ur =
     (case (case ur_dataselect_url ur of
              None \<Rightarrow> Inl TypeError
            | Some url \<Rightarrow> locate_source env ''dataselect_url'' url) of
        Inl e \<Rightarrow> Inl e
      | Inr (d_url, d_client) \<Rightarrow>
          (case (case ur_event_url ur of
                   None \<Rightarrow> Inr (None, None)
                 | Some url \<Rightarrow>
                     (case locate_source env ''event_url'' url of
                        Inl e \<Rightarrow> Inl e
                      | Inr (u, c) \<Rightarrow> Inr (Some u, c))) of
             Inl e \<Rightarrow> Inl e
           | Inr (e_url, e_client) \<Rightarrow>
               (case (case ur_station_url ur of
                        None \<Rightarrow> Inr (None, None)
                      | Some url \<Rightarrow>
                          (case locate_source env ''station_url'' url of
                             Inl e \<Rightarrow> Inl e
                           | Inr (u, c) \<Rightarrow> Inr (Some u, c))) of
                  Inl e \<Rightarrow> Inl e
                | Inr (s_url, s_client) \<Rightarrow>
                    Inr \<lparr> ep_dataselect_url = d_url, ep_dataselect_client = d_client,
                          ep_event_url = e_url, ep_event_client = e_client,
                          ep_station_url = s_url, ep_station_client = s_client \<rparr>)))"

definition example_env :: init_env where
  "example_env =
     \<lparr> URL_MAPPINGS = map_of [(''IRIS'', ''http://service.iris.edu''),
                              (''USGS'', ''http://earthquake.usgs.gov'')],
       path_exists = (\<lambda>p. p = ''/data''),
       abspath = (\<lambda>p. if starts_with ''/'' p then p else ''/home/ispaq/'' @ p) \<rparr>"

definition https_request :: user_request where
  "https_request =
     \<lparr> ur_dataselect_url = Some ''https://service.iris.edu'',
       ur_event_url = None, ur_station_url = None \<rparr>"

definition http_request :: user_request where
  "http_request =
     \<lparr> ur_dataselect_url = Some ''http://service.iris.edu'',
       ur_event_url = None, ur_station_url = None \<rparr>"

definition mixed_concierge :: concierge where
  "mixed_concierge = local_concierge\<lparr> sncl_patterns := [''IU.ANMO.00.LHZ'', ''IU.ANMO.00.BHZ''] \<rparr>"

definition mixed_stored :: concierge where
  "mixed_stored =
     mixed_concierge\<lparr> availability := Some local_catalog,
                       io_log := [Glob ''/data/IU.ANMO.00.LHZ.2013.001*'',
                                  Glob ''/data/IU.ANMO.00.BHZ.2013.001*''] \<rparr>"

section \<open>Pattern subsetting is a substring search\<close>

lemma contains_G_in_AG:
  "str_contains (py_pattern_of ''G.*.00.BHZ'') ''AG.HHAR.00.BHZ''"
  by code_simp

lemma spec_rejects_AG:
  "\<not> spec_match ''G.*.00.BHZ'' ''AG.HHAR.00.BHZ''"
  by code_simp

text \<open>
  Claim C1. The specification asks that the subsetting of \<^verbatim>\<open>get_availability\<close> keep an
  identifier exactly when its four dot-separated components match the pattern's components
  in full. The code searches the identifier for the translated pattern with
  \<^verbatim>\<open>str.contains\<close>, so a match may start inside the identifier: for the pattern
  \<^verbatim>\<open>G.*.00.BHZ\<close> (network G) the row of \<^verbatim>\<open>AG.HHAR.00.BHZ\<close> (network AG) is kept, although
  the specification's matcher rejects it.
\<close>

theorem subset_by_pattern_keeps_unanchored_match:
  "subset_by_pattern ''G.*.00.BHZ'' [file_row ''AG'' ''HHAR'' ''00'' ''BHZ'']
     = [file_row ''AG'' ''HHAR'' ''00'' ''BHZ'']
   \<and> snclId (file_row ''AG'' ''HHAR'' ''00'' ''BHZ'') = ''AG.HHAR.00.BHZ''
   \<and> \<not> spec_match ''G.*.00.BHZ'' ''AG.HHAR.00.BHZ''"
  using contains_G_in_AG spec_rejects_AG
  by (simp add: subset_by_pattern_def file_row_def)

section \<open>De-duplication and the distance filter\<close>

lemma drop_duplicates_count:
  "length (filter (\<lambda>r. key r = k) (drop_duplicates key seen rs))
     = (if k \<in> key ` set rs - set seen then 1 else 0)"
proof (induction rs arbitrary: seen)
  case Nil
  show ?case by simp
next
  case (Cons r rs)
  show ?case
  proof (cases "key r \<in> set seen")
    case True
    then show ?thesis using Cons.IH[of seen] by auto
  next
    case False
    then show ?thesis using Cons.IH[of "key r # seen"] by auto
  qed
qed

lemma drop_duplicates_subset: "set (drop_duplicates key seen rs) \<subseteq> set rs"
  by (induction rs arbitrary: seen) auto

lemma mark_rows_filter:
  "mark_rows w a df = Inr ks \<Longrightarrow> apply_mask df ks = filter (\<lambda>r. mark_keep w a r = Inr True) df"
proof (induction df arbitrary: ks)
  case Nil
  then show ?case by (simp add: apply_mask_def)
next
  case (Cons r rs)
  from Cons.prems obtain k ks' where k: "mark_keep w a r = Inr k"
    and ks': "mark_rows w a rs = Inr ks'" and eq: "ks = k # ks'"
    by (auto split: sum.splits)
  from Cons.IH[OF ks'] show ?case
    using k eq by (auto simp: apply_mask_def)
qed

lemma mark_keep_finite:
  assumes "latitude r = Num lat" "longitude r = Num lon" "lat \<noteq> 0" "lon \<noteq> 0"
    and "dist_degrees w (arg_latitude a) (arg_longitude a) lat lon = Inr d"
  shows "mark_keep w a r = Inr (radius_test (arg_minradius a) (arg_maxradius a) d)"
  using assms by (simp add: mark_keep_def)

lemma radius_test_interval:
  "mn \<noteq> None \<or> mx \<noteq> None \<Longrightarrow>
   radius_test mn mx d =
     ((case mn of None \<Rightarrow> True | Some l \<Rightarrow> l \<le> \<bar>d\<bar>) \<and>
      (case mx of None \<Rightarrow> True | Some u \<Rightarrow> \<bar>d\<bar> \<le> u))"
  by (auto simp: radius_test_def split: option.splits)

lemma mark_keep_falsy:
  "\<not> truthy (latitude r) \<or> \<not> truthy (longitude r) \<Longrightarrow> mark_keep w a r = Inr False"
  by (auto simp: mark_keep_def)

text \<open>
  Claim C5. After the per-pattern dataframes are concatenated and de-duplicated on
  (\<open>snclId\<close>, start time as a string), the merged catalog holds exactly one row for every
  key that occurs in the input and none for any other key, and every row of the merged
  catalog is an input row: of rows that share a key one survives, and no key is lost.
\<close>

theorem merge_availability_one_row_per_key:
  "length (filter (\<lambda>r. dup_key w r = k) (merge_availability w sncl_pattern_dataframes))
     = (if k \<in> dup_key w ` set (concat sncl_pattern_dataframes) then 1 else 0)
   \<and> set (merge_availability w sncl_pattern_dataframes) \<subseteq> set (concat sncl_pattern_dataframes)"
  unfolding merge_availability_def
  using drop_duplicates_count[of "dup_key w" k "[]" "concat sncl_pattern_dataframes"]
        drop_duplicates_subset[of "dup_key w" "[]" "concat sncl_pattern_dataframes"]
  by simp

theorem merge_availability_one_row_per_key_witness:
  "length (filter (\<lambda>r. dup_key example_world r = (''IU.ANMO.00.BHZ'', ''None''))
             (merge_availability example_world
                [[file_row ''IU'' ''ANMO'' ''00'' ''BHZ''],
                 [file_row ''IU'' ''ANMO'' ''00'' ''BHZ'', file_row ''IU'' ''ANMO'' ''00'' ''BH1'']]))
     = 1"
  using merge_availability_one_row_per_key[of example_world "(''IU.ANMO.00.BHZ'', ''None'')"
        "[[file_row ''IU'' ''ANMO'' ''00'' ''BHZ''],
          [file_row ''IU'' ''ANMO'' ''00'' ''BHZ'', file_row ''IU'' ''ANMO'' ''00'' ''BH1'']]"]
  by (simp add: dup_key_def example_world_def file_row_def)

text \<open>
  Claim C9. When a radius is given, a row with finite, nonzero coordinates whose distance
  from the reference point is \<open>d\<close> degrees is retained exactly when \<open>\<bar>d\<bar>\<close> lies in
  [minradius, maxradius], a missing bound being no bound. So a row at distance exactly
  maxradius is retained (no minradius above it), and a row at distance 0 is retained
  exactly when minradius is unset or at most 0 (maxradius, if given, not negative).
\<close>

theorem subset_by_distance_within_radius:
  assumes "arg_minradius a \<noteq> None \<or> arg_maxradius a \<noteq> None"
    and "subset_by_distance w a df = Inr df'"
    and "r \<in> set df"
    and "latitude r = Num lat" and "longitude r = Num lon" and "lat \<noteq> 0" and "lon \<noteq> 0"
    and "dist_degrees w (arg_latitude a) (arg_longitude a) lat lon = Inr d"
  shows "(r \<in> set df' \<longleftrightarrow>
            (case arg_minradius a of None \<Rightarrow> True | Some mn \<Rightarrow> mn \<le> \<bar>d\<bar>) \<and>
            (case arg_maxradius a of None \<Rightarrow> True | Some mx \<Rightarrow> \<bar>d\<bar> \<le> mx))
       \<and> (arg_maxradius a = Some \<bar>d\<bar> \<and> (\<forall>mn. arg_minradius a = Some mn \<longrightarrow> mn \<le> \<bar>d\<bar>)
            \<longrightarrow> r \<in> set df')
       \<and> (d = 0 \<and> (\<forall>mx. arg_maxradius a = Some mx \<longrightarrow> 0 \<le> mx)
            \<longrightarrow> (r \<in> set df' \<longleftrightarrow>
                   arg_minradius a = None \<or> (\<exists>mn. arg_minradius a = Some mn \<and> mn \<le> 0)))"
proof -
  from assms(1,2) obtain ks where ks: "mark_rows w a df = Inr ks" and df': "df' = apply_mask df ks"
    by (auto simp: subset_by_distance_def split: sum.splits)
  have "df' = filter (\<lambda>r. mark_keep w a r = Inr True) df"
    using mark_rows_filter[OF ks] df' by simp
  with assms(3) have mem: "r \<in> set df' \<longleftrightarrow> mark_keep w a r = Inr True"
    by simp
  have "mark_keep w a r = Inr (radius_test (arg_minradius a) (arg_maxradius a) d)"
    using assms(4-8) by (rule mark_keep_finite)
  with mem have main: "r \<in> set df' \<longleftrightarrow>
      (case arg_minradius a of None \<Rightarrow> True | Some mn \<Rightarrow> mn \<le> \<bar>d\<bar>) \<and>
      (case arg_maxradius a of None \<Rightarrow> True | Some mx \<Rightarrow> \<bar>d\<bar> \<le> mx)"
    using radius_test_interval[OF assms(1), of d] by simp
  show ?thesis
    unfolding main by (auto split: option.splits)
qed

text \<open>
  Claim C10. When a radius is given, a row whose latitude or longitude is exactly 0, or is
  \<^verbatim>\<open>None\<close>, is never retained: the test \<^verbatim>\<open>if (lat and lon)\<close> is false for it, whatever its
  distance from the reference point.
\<close>

theorem subset_by_distance_drops_zero_coordinates:
  assumes "arg_minradius a \<noteq> None \<or> arg_maxradius a \<noteq> None"
    and "subset_by_distance w a df = Inr df'"
    and "latitude r = Num 0 \<or> longitude r = Num 0 \<or> latitude r = PyNone \<or> longitude r = PyNone"
  shows "r \<notin> set df'"
proof -
  from assms(1,2) obtain ks where ks: "mark_rows w a df = Inr ks" and df': "df' = apply_mask df ks"
    by (auto simp: subset_by_distance_def split: sum.splits)
  have eq: "df' = filter (\<lambda>r. mark_keep w a r = Inr True) df"
    using mark_rows_filter[OF ks] df' by simp
  from assms(3) have "\<not> truthy (latitude r) \<or> \<not> truthy (longitude r)"
    by auto
  then have "mark_keep w a r = Inr False"
    by (rule mark_keep_falsy)
  with eq show ?thesis by simp
qed


lemma example_boundary_row_kept:
  "subset_by_distance example_world (radius_args None (Some 5)) [row_at ''BHZ'' (Num 3) (Num 2)]
     = Inr [row_at ''BHZ'' (Num 3) (Num 2)]"
  by (simp add: subset_by_distance_def mark_keep_def radius_test_def apply_mask_def
                row_at_def file_row_def example_world_def radius_args_def)

lemma example_boundary_dist:
  "dist_degrees example_world (arg_latitude (radius_args None (Some 5)))
      (arg_longitude (radius_args None (Some 5))) 3 2 = Inr 5"
  by (simp add: example_world_def radius_args_def)

theorem subset_by_distance_within_radius_witness:
  "subset_by_distance example_world (radius_args None (Some 5)) [row_at ''BHZ'' (Num 3) (Num 2)]
     = Inr [row_at ''BHZ'' (Num 3) (Num 2)]
   \<and> arg_maxradius (radius_args None (Some 5)) = Some \<bar>5\<bar>
   \<and> row_at ''BHZ'' (Num 3) (Num 2) \<in> set [row_at ''BHZ'' (Num 3) (Num 2)]"
proof -
  have h1: "arg_minradius (radius_args None (Some 5)) \<noteq> None
            \<or> arg_maxradius (radius_args None (Some 5)) \<noteq> None"
    by (simp add: radius_args_def)
  have h3: "row_at ''BHZ'' (Num 3) (Num 2) \<in> set [row_at ''BHZ'' (Num 3) (Num 2)]" by simp
  have h4: "latitude (row_at ''BHZ'' (Num 3) (Num 2)) = Num 3" by (simp add: row_at_def)
  have h5: "longitude (row_at ''BHZ'' (Num 3) (Num 2)) = Num 2" by (simp add: row_at_def)
  have h6: "(3::real) \<noteq> 0" and h7: "(2::real) \<noteq> 0" by simp_all
  have mx: "arg_maxradius (radius_args None (Some 5)) = Some \<bar>5\<bar>"
    by (simp add: radius_args_def)
  show ?thesis
    using subset_by_distance_within_radius
            [OF h1 example_boundary_row_kept h3 h4 h5 h6 h7 example_boundary_dist]
          example_boundary_row_kept mx
    by simp
qed

lemma example_equator_row_dropped:
  "subset_by_distance example_world (radius_args None (Some 5)) [row_at ''BHZ'' (Num 0) (Num 2)]
     = Inr []"
  by (simp add: subset_by_distance_def mark_keep_def radius_test_def apply_mask_def
                row_at_def file_row_def example_world_def radius_args_def)

theorem subset_by_distance_drops_zero_coordinates_witness:
  "subset_by_distance example_world (radius_args None (Some 5)) [row_at ''BHZ'' (Num 0) (Num 2)]
     = Inr []
   \<and> dist_degrees example_world (Some 0) (Some 0) 0 2 = Inr 2
   \<and> row_at ''BHZ'' (Num 0) (Num 2) \<notin> set ([] :: avail_row list)"
proof -
  have h1: "arg_minradius (radius_args None (Some 5)) \<noteq> None
            \<or> arg_maxradius (radius_args None (Some 5)) \<noteq> None"
    by (simp add: radius_args_def)
  have h3: "latitude (row_at ''BHZ'' (Num 0) (Num 2)) = Num 0
            \<or> longitude (row_at ''BHZ'' (Num 0) (Num 2)) = Num 0
            \<or> latitude (row_at ''BHZ'' (Num 0) (Num 2)) = PyNone
            \<or> longitude (row_at ''BHZ'' (Num 0) (Num 2)) = PyNone"
    by (simp add: row_at_def)
  have d: "dist_degrees example_world (Some 0) (Some 0) 0 2 = Inr 2"
    by (simp add: example_world_def)
  show ?thesis
    using subset_by_distance_drops_zero_coordinates[OF h1 example_equator_row_dropped h3]
          example_equator_row_dropped d
    by simp
qed

section \<open>The stored availability dataframe is reused\<close>

lemma year_jday_2013_001: "year_jday 1970 15706 = (2013, 1)"
  by (simp add: year_jday.simps days_in_year_def leap_year_def)

lemma strftime_2013_001: "strftime_Yj 1356998400000000 = ''2013.001''"
  by (simp add: strftime_Yj_def year_of_def julday_def usec_per_day_def year_jday_2013_001
                digit_chr_def)

lemma filepattern_IU_ANMO:
  "filepattern_of ''/data'' ''IU'' ''ANMO'' ''00'' ''BHZ'' 1356998400000000
     = ''/data/IU.ANMO.00.BHZ.2013.001*''"
  by (simp add: filepattern_of_def sncl_string_def strftime_2013_001)

lemma parse_IU_ANMO:
  "parse_sncl_pattern ''IU.ANMO.00.BHZ'' = Inr (''IU'', ''ANMO'', ''00'', ''BHZ'')"
  by code_simp

lemma file_codes_IU_ANMO:
  "file_codes ''/data/IU.ANMO.00.BHZ.2013.001.M'' = Inr (''IU'', ''ANMO'', ''00'', ''BHZ'')"
  by code_simp

lemma basename_sncl_IU_ANMO:
  "basename_sncl ''/data/IU.ANMO.00.BHZ.2013.001.M'' = Inr ''IU.ANMO.00.BHZ''"
  by code_simp

lemma contains_IU_ANMO:
  "str_contains (py_pattern_of ''IU.ANMO.00.BHZ'') ''IU.ANMO.00.BHZ''"
  "str_contains (replace_chr (CHR ''.'') [CHR 0x5C, CHR ''.''] ''IU.ANMO.00.BHZ'') ''IU.ANMO.00.BHZ''"
  "\<not> str_contains ''MASK WITH ALL FALSE'' ''IU.ANMO.00.BHZ''"
  by code_simp+

lemma snclId_local_row: "snclId (file_row ''IU'' ''ANMO'' ''00'' ''BHZ'') = ''IU.ANMO.00.BHZ''"
  by (simp add: file_row_def)









lemma sncl_string_IU_ANMO: "sncl_string ''IU'' ''ANMO'' ''00'' ''BHZ'' = ''IU.ANMO.00.BHZ''"
  by (simp add: sncl_string_def)

lemma local_subset_by_files:
  "subset_by_files [''/data/IU.ANMO.00.BHZ.2013.001.M''] local_catalog = Inr local_catalog"
  by (simp add: subset_by_files_def basename_sncl_IU_ANMO local_catalog_def snclId_local_row
                contains_IU_ANMO apply_mask_def)

lemma local_subset_by_pattern:
  "subset_by_pattern ''IU.ANMO.00.BHZ'' local_catalog = local_catalog"
  by (simp add: subset_by_pattern_def local_catalog_def snclId_local_row contains_IU_ANMO)


lemma local_merge: "merge_availability local_world [local_catalog] = local_catalog"
  by (simp add: merge_availability_def local_catalog_def)




section \<open>An empty result is returned as None\<close>

lemma parse_IU_ANMO_LHZ:
  "parse_sncl_pattern ''IU.ANMO.00.LHZ'' = Inr (''IU'', ''ANMO'', ''00'', ''LHZ'')"
  by code_simp

lemma filepattern_IU_ANMO_LHZ:
  "filepattern_of ''/data'' ''IU'' ''ANMO'' ''00'' ''LHZ'' 1356998400000000
     = ''/data/IU.ANMO.00.LHZ.2013.001*''"
  by (simp add: filepattern_of_def sncl_string_def strftime_2013_001)

lemma nofile_build:
  "build_availability local_world no_args nofile_concierge
     = (None, nofile_concierge\<lparr> io_log := [Glob ''/data/IU.ANMO.00.LHZ.2013.001*''] \<rparr>)"
  by (simp add: build_availability_def read_station_metadata_def nofile_concierge_def
        local_concierge_def local_world_def no_args_def override_def parse_IU_ANMO_LHZ
        filepattern_IU_ANMO_LHZ)

lemma nofile_loop:
  "availability_loop local_world no_args
      (nofile_concierge\<lparr> io_log := [Glob ''/data/IU.ANMO.00.LHZ.2013.001*''] \<rparr>) 0
      [''IU.ANMO.00.LHZ''] [] lg = (Inr [], lg)"
  by (simp add: pattern_dataframe_def parse_IU_ANMO_LHZ fetch_dataframe_def
        nofile_concierge_def local_concierge_def no_args_def)

text \<open>
  Claim C2, as stated, fails. With one pattern for which no local file exists, the build
  stores nothing, the loop passes the pattern over, and the method returns \<^verbatim>\<open>None\<close>
  in the ordinary way: no \<^verbatim>\<open>NoAvailableDataError\<close> (nor any other exception) is raised.
\<close>

theorem get_availability_no_data_returns_None:
  "fst (get_availability local_world no_args nofile_concierge) = Inr None"
proof -
  have p: "sncl_patterns (nofile_concierge\<lparr> io_log := [Glob ''/data/IU.ANMO.00.LHZ.2013.001*''] \<rparr>)
             = [''IU.ANMO.00.LHZ'']"
    by (simp add: nofile_concierge_def)
  show ?thesis
    by (simp add: get_availability_def nofile_build p nofile_loop del: availability_loop.simps)
qed

lemma drop_duplicates_nonempty: "rs \<noteq> [] \<Longrightarrow> drop_duplicates key [] rs \<noteq> []"
  by (cases rs) auto

lemma pattern_dataframe_Some_nonempty:
  "pattern_dataframe w a s p lg = (Inr (Some df), lg1) \<Longrightarrow> df \<noteq> []"
  by (auto simp: pattern_dataframe_def Let_def
           split: sum.splits prod.splits option.splits if_splits)

lemma availability_loop_frames_nonempty:
  "availability_loop w a s n ps fr lg = (Inr frames, lg1) \<Longrightarrow>
   \<forall>f\<in>set fr. f \<noteq> [] \<Longrightarrow> \<forall>f\<in>set frames. f \<noteq> []"
proof (induction ps arbitrary: n fr lg)
  case Nil
  then show ?case by simp
next
  case (Cons p ps)
  show ?case
  proof (cases "arg_network a = Some ''*'' \<and> arg_station a = Some ''*'' \<and> arg_location a = Some ''*''
         \<and> n + 1 > 1")
    case True
    with Cons.prems(1) have "availability_loop w a s (n + 1) ps fr lg = (Inr frames, lg1)" by simp
    from Cons.IH[OF this Cons.prems(2)] show ?thesis .
  next
    case False
    obtain pr lgp where p: "pattern_dataframe w a s p lg = (pr, lgp)"
      by (cases "pattern_dataframe w a s p lg")
    show ?thesis
    proof (cases pr)
      case (Inl e)
      with Cons.prems(1) False p show ?thesis by auto
    next
      case (Inr o1)
      show ?thesis
      proof (cases o1)
        case None
        with Cons.prems(1) False p Inr
        have "availability_loop w a s (n + 1) ps fr lgp = (Inr frames, lg1)" by auto
        from Cons.IH[OF this Cons.prems(2)] show ?thesis .
      next
        case (Some df)
        with Cons.prems(1) False p Inr
        have l: "availability_loop w a s (n + 1) ps (fr @ [df]) lgp = (Inr frames, lg1)" by auto
        from p Inr Some have "df \<noteq> []" by (auto dest: pattern_dataframe_Some_nonempty)
        with Cons.prems(2) have "\<forall>f\<in>set (fr @ [df]). f \<noteq> []" by auto
        from Cons.IH[OF l this] show ?thesis .
      qed
    qed
  qed
qed

section \<open>The loop counter suppresses later patterns only for "*" arguments\<close>

lemma parse_wild:
  "parse_sncl_pattern ''*.*.*.BHZ'' = Inr (''*'', ''*'', ''*'', ''BHZ'')"
  "parse_sncl_pattern ''*.*.*.LHZ'' = Inr (''*'', ''*'', ''*'', ''LHZ'')"
  by code_simp+

lemma contains_wild:
  "str_contains (py_pattern_of ''*.*.*.BHZ'') ''IU.ANMO.00.BHZ''"
  "str_contains (py_pattern_of ''*.*.*.LHZ'') ''IU.ANMO.00.LHZ''"
  by code_simp+

lemma snclId_remote_row:
  "snclId (remote_row ''BHZ'') = ''IU.ANMO.00.BHZ''"
  "snclId (remote_row ''LHZ'') = ''IU.ANMO.00.LHZ''"
  by (simp_all add: remote_row_def channel_row_def remote_network_def remote_station_def
                    remote_channel_def sncl_string_def)

lemma remote_inventory_rows:
  "inventory_rows (\<lambda>c. True) [remote_network cha] = [remote_row cha]"
  by (simp add: inventory_rows_def remote_network_def remote_station_def remote_row_def)

lemma remote_pattern_BHZ:
  "pattern_dataframe remote_world no_args remote_concierge ''*.*.*.BHZ'' lg
     = (Inr (Some [remote_row ''BHZ'']), lg @ [GetStations (remote_query ''*'' ''BHZ'')])"
  by (simp add: pattern_dataframe_def parse_wild fetch_dataframe_def remote_world_def
        remote_concierge_def restrict_to_local_files_def subset_by_distance_def
        no_args_def override_def sncl_string_def remote_inventory_rows Let_def
        subset_by_pattern_def snclId_remote_row contains_wild remote_query_def)

lemma remote_pattern_LHZ:
  "pattern_dataframe remote_world no_args remote_concierge ''*.*.*.LHZ'' lg
     = (Inr (Some [remote_row ''LHZ'']), lg @ [GetStations (remote_query ''*'' ''LHZ'')])"
  by (simp add: pattern_dataframe_def parse_wild fetch_dataframe_def remote_world_def
        remote_concierge_def restrict_to_local_files_def subset_by_distance_def
        no_args_def override_def sncl_string_def remote_inventory_rows Let_def
        subset_by_pattern_def snclId_remote_row contains_wild remote_query_def)

lemma remote_pattern_star_BHZ:
  "pattern_dataframe remote_world star_args remote_concierge ''*.*.*.BHZ'' lg
     = (Inr (Some [remote_row ''BHZ'']), lg @ [GetStations (remote_query ''*'' ''BHZ'')])"
  by (simp add: pattern_dataframe_def parse_wild fetch_dataframe_def remote_world_def
        remote_concierge_def restrict_to_local_files_def subset_by_distance_def
        no_args_def star_args_def override_def sncl_string_def remote_inventory_rows Let_def
        subset_by_pattern_def snclId_remote_row contains_wild remote_query_def)

lemma remote_build: "build_availability remote_world a remote_concierge = (None, remote_concierge)"
  by (simp add: build_availability_def remote_concierge_def)

lemma remote_merge_two:
  "merge_availability remote_world [[remote_row ''BHZ''], [remote_row ''LHZ'']]
     = [remote_row ''BHZ'', remote_row ''LHZ'']"
  by (simp add: merge_availability_def dup_key_def snclId_remote_row)

lemma remote_merge_one:
  "merge_availability remote_world [[remote_row ''BHZ'']] = [remote_row ''BHZ'']"
  by (simp add: merge_availability_def)

text \<open>
  Claim C6, as stated, fails. The pattern list holds two patterns of the shape
  \<^verbatim>\<open>*.*.*.channel\<close> and the caller passes no overriding argument: both iterations are
  evaluated (two station requests are made) and the second one adds its row to the merged
  catalog.
\<close>

theorem get_availability_evaluates_every_wildcard_pattern:
  "fst (get_availability remote_world no_args remote_concierge)
     = Inr (Some [remote_row ''BHZ'', remote_row ''LHZ''])
   \<and> io_log (snd (get_availability remote_world no_args remote_concierge))
     = [GetStations (remote_query ''*'' ''BHZ''), GetStations (remote_query ''*'' ''LHZ'')]"
proof -
  have p: "sncl_patterns remote_concierge = [''*.*.*.BHZ'', ''*.*.*.LHZ'']"
    and l: "io_log remote_concierge = []"
    by (simp_all add: remote_concierge_def)
  have a: "arg_network no_args = None" by (simp add: no_args_def)
  show ?thesis
    by (simp add: get_availability_def remote_build p l a remote_pattern_BHZ remote_pattern_LHZ
                  remote_merge_two Let_def)
qed

lemma availability_loop_skips_rest:
  assumes "arg_network a = Some ''*''" and "arg_station a = Some ''*''"
    and "arg_location a = Some ''*''" and "1 \<le> n"
  shows "availability_loop w a s n ps frames lg = (Inr frames, lg)"
  using assms(4) by (induction ps arbitrary: n) (simp_all add: assms(1-3))

lemma fetch_dataframe_ignores_patterns:
  "fetch_dataframe w (s\<lparr>sncl_patterns := x\<rparr>) q lg = fetch_dataframe w s q lg"
  by (simp add: fetch_dataframe_def split: option.splits)

lemma restrict_to_local_files_ignores_patterns:
  "restrict_to_local_files w (s\<lparr>sncl_patterns := x\<rparr>) fp df lg
     = restrict_to_local_files w s fp df lg"
  by (simp add: restrict_to_local_files_def)

lemma pattern_dataframe_ignores_patterns:
  "pattern_dataframe w a (s\<lparr>sncl_patterns := x\<rparr>) p lg = pattern_dataframe w a s p lg"
proof (cases "parse_sncl_pattern p")
  case (Inl e)
  then show ?thesis by (simp add: pattern_dataframe_def)
next
  case (Inr codes)
  obtain n st l c where "codes = (n, st, l, c)" by (cases codes) auto
  with Inr show ?thesis
    by (simp add: pattern_dataframe_def Let_def fetch_dataframe_ignores_patterns
                  restrict_to_local_files_ignores_patterns
             split: prod.splits option.splits)
qed

lemma availability_loop_ignores_patterns:
  "availability_loop w a (s\<lparr>sncl_patterns := x\<rparr>) n ps frames lg
     = availability_loop w a s n ps frames lg"
  by (induction ps arbitrary: n frames lg)
     (simp_all add: pattern_dataframe_ignores_patterns split: prod.splits sum.splits option.splits)

section \<open>The constructor and https URLs\<close>

lemma probe_is_http: "py_or ''http://'' ''https://'' = ''http://''"
  by (simp add: py_or_def)

lemma http_not_in_https: "\<not> str_in ''http://'' ''https://service.iris.edu''"
  by code_simp

lemma http_in_http: "str_in ''http://'' ''http://service.iris.edu''"
  by code_simp

text \<open>
  Claim C3. The claim asks that a value beginning with \<^verbatim>\<open>https://\<close> be taken as a remote
  service. The constructor tests \<^verbatim>\<open>("http://" or "https://") in url\<close>, which is
  \<^verbatim>\<open>"http://" in url\<close>: a dataselect URL \<^verbatim>\<open>https://service.iris.edu\<close> that is neither a
  service name nor an existing path is rejected with a \<^verbatim>\<open>ValueError\<close>, while the same
  URL with \<^verbatim>\<open>http://\<close> yields a client.
\<close>

theorem init_endpoints_rejects_https_url:
  "init_endpoints example_env https_request
     = Inl (ValueError (''Cannot find preference file dataselect_url: ''
                        @ [CHR 0x27] @ ''https://service.iris.edu'' @ [CHR 0x27]))
   \<and> init_endpoints example_env http_request
     = Inr \<lparr> ep_dataselect_url = ''http://service.iris.edu'',
             ep_dataselect_client = Some ''http://service.iris.edu'',
             ep_event_url = None, ep_event_client = None,
             ep_station_url = None, ep_station_client = None \<rparr>"
  by (simp add: init_endpoints_def locate_source_def example_env_def https_request_def
        http_request_def probe_is_http http_not_in_https http_in_http)

section \<open>The result in terms of the patterns\<close>

lemma fetch_dataframe_fst: "fst (fetch_dataframe w s q lg) = fst (fetch_dataframe w s q [])"
  by (simp add: fetch_dataframe_def split: option.splits)

lemma restrict_to_local_files_fst:
  "fst (restrict_to_local_files w s fp df lg) = fst (restrict_to_local_files w s fp df [])"
  by (simp add: restrict_to_local_files_def Let_def)

lemma pattern_dataframe_fst:
  "fst (pattern_dataframe w a s p lg) = fst (pattern_dataframe w a s p [])"
proof (cases "parse_sncl_pattern p")
  case (Inl e)
  then show ?thesis by (simp add: pattern_dataframe_def)
next
  case (Inr codes)
  obtain n st l c where codes: "codes = (n, st, l, c)" by (cases codes) auto
  let ?q = "\<lparr> q_starttime = override (arg_starttime a) (requested_starttime s),
                     q_endtime = override (arg_endtime a) (requested_endtime s),
                     q_network = override (arg_network a) n, q_station = override (arg_station a) st,
                     q_location = override (arg_location a) l, q_channel = override (arg_channel a) c,
                     q_latitude = arg_latitude a, q_longitude = arg_longitude a,
                     q_minradius = arg_minradius a, q_maxradius = arg_maxradius a \<rparr>"
  let ?fp = "filepattern_of (dataselect_url s) (override (arg_network a) n)
        (override (arg_station a) st) (override (arg_location a) l) (override (arg_channel a) c)
        (override (arg_starttime a) (requested_starttime s))"
  let ?sub = "(\<lambda>df. subset_by_pattern (sncl_string (override (arg_network a) n)
        (override (arg_station a) st) (override (arg_location a) l) (override (arg_channel a) c)) df)"
  have unfold: "pattern_dataframe w a s p lg' =
      (case fetch_dataframe w s ?q lg' of
         (None, lg1) \<Rightarrow> (Inr None, lg1)
       | (Some df, lg1) \<Rightarrow>
           (case restrict_to_local_files w s ?fp (?sub df) lg1 of
              (Inl e, lg2) \<Rightarrow> (Inl e, lg2)
            | (Inr None, lg2) \<Rightarrow> (Inr None, lg2)
            | (Inr (Some df1), lg2) \<Rightarrow>
                (case subset_by_distance w a df1 of
                   Inl e \<Rightarrow> (Inl e, lg2)
                 | Inr df2 \<Rightarrow> (Inr (if df2 = [] then None else Some df2), lg2))))" for lg'
    using Inr codes by (simp add: pattern_dataframe_def Let_def)
  have step: "fst (pattern_dataframe w a s p lg') =
      (case fst (fetch_dataframe w s ?q []) of
         None \<Rightarrow> Inr None
       | Some df \<Rightarrow>
           (case fst (restrict_to_local_files w s ?fp (?sub df) []) of
              Inl e \<Rightarrow> Inl e
            | Inr None \<Rightarrow> Inr None
            | Inr (Some df1) \<Rightarrow>
                (case subset_by_distance w a df1 of
                   Inl e \<Rightarrow> Inl e
                 | Inr df2 \<Rightarrow> Inr (if df2 = [] then None else Some df2))))" for lg'
  proof -
    obtain fr lg1 where f: "fetch_dataframe w s ?q lg' = (fr, lg1)"
      by (cases "fetch_dataframe w s ?q lg'")
    have f0: "fst (fetch_dataframe w s ?q []) = fr"
      using fetch_dataframe_fst[of w s ?q lg'] f by simp
    show ?thesis
    proof (cases fr)
      case None
      with f f0 show ?thesis by (simp add: unfold)
    next
      case (Some df)
      obtain rr lg2 where r: "restrict_to_local_files w s ?fp (?sub df) lg1 = (rr, lg2)"
        by (cases "restrict_to_local_files w s ?fp (?sub df) lg1")
      have r0: "fst (restrict_to_local_files w s ?fp (?sub df) []) = rr"
        using restrict_to_local_files_fst[of w s ?fp "?sub df" lg1] r by simp
      show ?thesis
        using f f0 Some r r0
        by (simp add: unfold split: sum.splits option.splits)
    qed
  qed
  show ?thesis using step[of lg] step[of "[]"] by simp
qed

lemma availability_loop_collects:
  assumes ns: "\<not> (arg_network a = Some ''*'' \<and> arg_station a = Some ''*''
                  \<and> arg_location a = Some ''*'')"
    and ok: "\<forall>p\<in>set ps. \<exists>r. fst (pattern_dataframe w a s p []) = Inr r"
  shows "fst (availability_loop w a s n ps frames lg)
           = Inr (frames @ List.map_filter
                    (\<lambda>p. case fst (pattern_dataframe w a s p []) of Inr r \<Rightarrow> r | Inl e \<Rightarrow> None) ps)"
  using ok
proof (induction ps arbitrary: n frames lg)
  case Nil
  show ?case by (simp add: List.map_filter_simps)
next
  case (Cons p ps)
  obtain pr lgp where p: "pattern_dataframe w a s p lg = (pr, lgp)"
    by (cases "pattern_dataframe w a s p lg")
  have pr: "fst (pattern_dataframe w a s p []) = pr"
    using pattern_dataframe_fst[of w a s p lg] p by simp
  from Cons.prems obtain r where r: "pr = Inr r" using pr by auto
  have rest: "\<forall>q\<in>set ps. \<exists>r. fst (pattern_dataframe w a s q []) = Inr r"
    using Cons.prems by simp
  show ?case
  proof (cases r)
    case None
    have "fst (availability_loop w a s n (p # ps) frames lg)
            = fst (availability_loop w a s (n + 1) ps frames lgp)"
      using ns p r None by auto
    also have "\<dots> = Inr (frames @ List.map_filter
                    (\<lambda>p. case fst (pattern_dataframe w a s p []) of Inr r \<Rightarrow> r | Inl e \<Rightarrow> None) ps)"
      by (rule Cons.IH[OF rest])
    finally show ?thesis using pr r None by (simp add: List.map_filter_simps)
  next
    case (Some df)
    have "fst (availability_loop w a s n (p # ps) frames lg)
            = fst (availability_loop w a s (n + 1) ps (frames @ [df]) lgp)"
      using ns p r Some by auto
    also have "\<dots> = Inr ((frames @ [df]) @ List.map_filter
                    (\<lambda>p. case fst (pattern_dataframe w a s p []) of Inr r \<Rightarrow> r | Inl e \<Rightarrow> None) ps)"
      by (rule Cons.IH[OF rest])
    finally show ?thesis using pr r Some by (simp add: List.map_filter_simps)
  qed
qed

lemma availability_loop_first_only:
  assumes star: "arg_network a = Some ''*''" "arg_station a = Some ''*''"
                "arg_location a = Some ''*''"
    and ok: "\<forall>p\<in>set (take 1 ps). \<exists>r. fst (pattern_dataframe w a s p []) = Inr r"
  shows "fst (availability_loop w a s 0 ps [] lg)
           = Inr (List.map_filter
                    (\<lambda>p. case fst (pattern_dataframe w a s p []) of Inr r \<Rightarrow> r | Inl e \<Rightarrow> None)
                    (take 1 ps))"
proof (cases ps)
  case Nil
  then show ?thesis by (simp add: List.map_filter_simps)
next
  case (Cons p rest)
  obtain pr lgp where p: "pattern_dataframe w a s p lg = (pr, lgp)"
    by (cases "pattern_dataframe w a s p lg")
  have pr: "fst (pattern_dataframe w a s p []) = pr"
    using pattern_dataframe_fst[of w a s p lg] p by simp
  from ok Cons obtain r where r: "pr = Inr r" using pr by auto
  have skip: "availability_loop w a s (Suc 0) rest fr lgp = (Inr fr, lgp)" for fr
    using availability_loop_skips_rest[OF star, of "Suc 0"] by simp
  show ?thesis
    using Cons p pr r by (cases r) (simp_all add: skip List.map_filter_simps)
qed

lemma availability_loop_by_patterns:
  assumes ev: "evaluated = (if arg_network a = Some ''*'' \<and> arg_station a = Some ''*''
                               \<and> arg_location a = Some ''*''
                            then take 1 ps else ps)"
    and ok: "\<forall>p\<in>set evaluated. \<exists>r. fst (pattern_dataframe w a s p []) = Inr r"
  shows "fst (availability_loop w a s 0 ps [] lg)
           = Inr (List.map_filter
                    (\<lambda>p. case fst (pattern_dataframe w a s p []) of Inr r \<Rightarrow> r | Inl e \<Rightarrow> None)
                    evaluated)"
proof (cases "arg_network a = Some ''*'' \<and> arg_station a = Some ''*'' \<and> arg_location a = Some ''*''")
  case True
  with ev have e: "evaluated = take 1 ps" by simp
  from True have star: "arg_network a = Some ''*''" "arg_station a = Some ''*''"
    "arg_location a = Some ''*''" by simp_all
  show ?thesis
    unfolding e using availability_loop_first_only[OF star] ok[unfolded e] by blast
next
  case False
  with ev have e: "evaluated = ps" by simp
  show ?thesis
    unfolding e using availability_loop_collects[OF False ok[unfolded e], of 0 "[]" lg] by simp
qed

lemma map_filter_frames_nonempty:
  "\<forall>df\<in>set (List.map_filter
                (\<lambda>p. case fst (pattern_dataframe w a s p []) of Inr r \<Rightarrow> r | Inl e \<Rightarrow> None) ps).
     df \<noteq> []"
proof
  fix df
  assume "df \<in> set (List.map_filter
                (\<lambda>p. case fst (pattern_dataframe w a s p []) of Inr r \<Rightarrow> r | Inl e \<Rightarrow> None) ps)"
  then obtain p where "fst (pattern_dataframe w a s p []) = Inr (Some df)"
    by (auto simp: List.map_filter_def split: sum.splits)
  then have "pattern_dataframe w a s p [] = (Inr (Some df), snd (pattern_dataframe w a s p []))"
    by (metis prod.collapse)
  then show "df \<noteq> []" by (rule pattern_dataframe_Some_nonempty)
qed

lemma map_filter_frames_Nil:
  assumes "\<forall>p\<in>set ps. \<exists>r. fst (pattern_dataframe w a s p []) = Inr r"
  shows "List.map_filter
           (\<lambda>p. case fst (pattern_dataframe w a s p []) of Inr r \<Rightarrow> r | Inl e \<Rightarrow> None) ps = []
         \<longleftrightarrow> (\<forall>p\<in>set ps. fst (pattern_dataframe w a s p []) = Inr None)"
  using assms by (induction ps) (auto simp: List.map_filter_simps split: option.splits)

lemma get_availability_by_patterns:
  assumes b: "build_availability w a s = (None, s1)"
    and ev: "evaluated = (if arg_network a = Some ''*'' \<and> arg_station a = Some ''*''
                               \<and> arg_location a = Some ''*''
                            then take 1 (sncl_patterns s1) else sncl_patterns s1)"
    and ok: "\<forall>p\<in>set evaluated. \<exists>r. fst (pattern_dataframe w a s1 p []) = Inr r"
    and fr: "frames = List.map_filter
               (\<lambda>p. case fst (pattern_dataframe w a s1 p []) of Inr r \<Rightarrow> r | Inl e \<Rightarrow> None)
               evaluated"
  shows "fst (get_availability w a s)
           = (if frames = [] then Inr None else Inr (Some (merge_availability w frames)))"
    and "frames \<noteq> [] \<Longrightarrow> merge_availability w frames \<noteq> []"
proof -
  have ne: "\<forall>df\<in>set frames. df \<noteq> []"
    unfolding fr by (rule map_filter_frames_nonempty)
  show m: "merge_availability w frames \<noteq> []" if "frames \<noteq> []"
  proof -
    from that obtain f fs where "frames = f # fs" by (cases frames) auto
    with ne have "concat frames \<noteq> []" by auto
    then show ?thesis
      unfolding merge_availability_def by (rule drop_duplicates_nonempty)
  qed
  obtain r lg where l: "availability_loop w a s1 0 (sncl_patterns s1) [] (io_log s1) = (r, lg)"
    by (cases "availability_loop w a s1 0 (sncl_patterns s1) [] (io_log s1)")
  have "r = Inr frames"
    using availability_loop_by_patterns[OF ev ok, of "io_log s1"] l fr by simp
  with l have l': "availability_loop w a s1 0 (sncl_patterns s1) [] (io_log s1) = (Inr frames, lg)"
    by simp
  show "fst (get_availability w a s)
           = (if frames = [] then Inr None else Inr (Some (merge_availability w frames)))"
    using b l' m by (simp add: get_availability_def Let_def)
qed

lemma mixed_build:
  "build_availability local_world no_args mixed_concierge = (None, mixed_stored)"
  by (simp add: build_availability_def read_station_metadata_def mixed_concierge_def
        mixed_stored_def local_concierge_def local_world_def no_args_def override_def
        parse_IU_ANMO parse_IU_ANMO_LHZ filepattern_IU_ANMO filepattern_IU_ANMO_LHZ
        file_codes_IU_ANMO local_catalog_def)

lemma mixed_pattern_LHZ:
  "fst (pattern_dataframe local_world no_args mixed_stored ''IU.ANMO.00.LHZ'' []) = Inr None"
  by (simp add: pattern_dataframe_def parse_IU_ANMO_LHZ fetch_dataframe_def
        restrict_to_local_files_def mixed_stored_def mixed_concierge_def local_concierge_def
        no_args_def override_def filepattern_IU_ANMO_LHZ local_world_def Let_def)

lemma mixed_pattern_BHZ:
  "fst (pattern_dataframe local_world no_args mixed_stored ''IU.ANMO.00.BHZ'' [])
     = Inr (Some local_catalog)"
proof -
  have g: "glob local_world ''/data/IU.ANMO.00.BHZ.2013.001*'' = [''/data/IU.ANMO.00.BHZ.2013.001.M'']"
    by (simp add: local_world_def)
  have ne: "local_catalog \<noteq> []" by (simp add: local_catalog_def)
  show ?thesis
    using ne
    by (simp add: pattern_dataframe_def parse_IU_ANMO fetch_dataframe_def
          restrict_to_local_files_def subset_by_distance_def Let_def
          mixed_stored_def mixed_concierge_def local_concierge_def no_args_def override_def
          sncl_string_IU_ANMO filepattern_IU_ANMO g local_subset_by_pattern
          local_subset_by_files)
qed

text \<open>
  Claim C2, amended. Let the build complete, and let no evaluated pattern raise (the
  evaluated patterns are all entries of the list, or only the first one when the arguments
  network, station and location are all \<^verbatim>\<open>"*"\<close>). Then \<^verbatim>\<open>get_availability\<close> returns
  \<^verbatim>\<open>None\<close>, raising nothing, exactly when every evaluated pattern yields no rows; otherwise
  it returns the de-duplicated concatenation of the dataframes of those patterns that do
  yield rows, in the order of the list, the others being passed over; that result is never
  empty.
\<close>

theorem get_availability_None_iff_every_pattern_empty:
  assumes "build_availability w a s = (None, s1)"
    and "evaluated = (if arg_network a = Some ''*'' \<and> arg_station a = Some ''*''
                          \<and> arg_location a = Some ''*''
                       then take 1 (sncl_patterns s1) else sncl_patterns s1)"
    and "\<forall>p\<in>set evaluated. \<exists>r. fst (pattern_dataframe w a s1 p []) = Inr r"
  shows "fst (get_availability w a s)
           = (if \<forall>p\<in>set evaluated. fst (pattern_dataframe w a s1 p []) = Inr None
              then Inr None
              else Inr (Some (merge_availability w
                     (List.map_filter
                        (\<lambda>p. case fst (pattern_dataframe w a s1 p []) of
                                Inr r \<Rightarrow> r | Inl e \<Rightarrow> None)
                        evaluated))))
       \<and> (\<not> (\<forall>p\<in>set evaluated. fst (pattern_dataframe w a s1 p []) = Inr None)
            \<longrightarrow> merge_availability w
                  (List.map_filter
                     (\<lambda>p. case fst (pattern_dataframe w a s1 p []) of
                             Inr r \<Rightarrow> r | Inl e \<Rightarrow> None)
                     evaluated) \<noteq> [])"
proof -
  let ?frames = "List.map_filter
                   (\<lambda>p. case fst (pattern_dataframe w a s1 p []) of Inr r \<Rightarrow> r | Inl e \<Rightarrow> None)
                   evaluated"
  have nil: "?frames = [] \<longleftrightarrow> (\<forall>p\<in>set evaluated. fst (pattern_dataframe w a s1 p []) = Inr None)"
    by (rule map_filter_frames_Nil[OF assms(3)])
  have r: "fst (get_availability w a s)
           = (if ?frames = [] then Inr None else Inr (Some (merge_availability w ?frames)))"
    by (rule get_availability_by_patterns(1)[OF assms refl])
  have m: "?frames \<noteq> [] \<Longrightarrow> merge_availability w ?frames \<noteq> []"
    by (rule get_availability_by_patterns(2)[OF assms refl])
  show ?thesis using r m nil by auto
qed

theorem get_availability_None_iff_every_pattern_empty_witness:
  "fst (pattern_dataframe local_world no_args mixed_stored ''IU.ANMO.00.LHZ'' []) = Inr None
   \<and> fst (pattern_dataframe local_world no_args mixed_stored ''IU.ANMO.00.BHZ'' [])
       = Inr (Some local_catalog)
   \<and> fst (get_availability local_world no_args mixed_concierge) = Inr (Some local_catalog)"
proof -
  have ps: "sncl_patterns mixed_stored = [''IU.ANMO.00.LHZ'', ''IU.ANMO.00.BHZ'']"
    by (simp add: mixed_stored_def mixed_concierge_def)
  have h2: "[''IU.ANMO.00.LHZ'', ''IU.ANMO.00.BHZ'']
              = (if arg_network no_args = Some ''*'' \<and> arg_station no_args = Some ''*''
                    \<and> arg_location no_args = Some ''*''
                 then take 1 (sncl_patterns mixed_stored) else sncl_patterns mixed_stored)"
    by (simp add: ps no_args_def)
  have h3: "\<forall>p\<in>set [''IU.ANMO.00.LHZ'', ''IU.ANMO.00.BHZ''].
              \<exists>r. fst (pattern_dataframe local_world no_args mixed_stored p []) = Inr r"
    by (simp add: mixed_pattern_LHZ mixed_pattern_BHZ)
  from get_availability_None_iff_every_pattern_empty[OF mixed_build h2 h3]
  have "fst (get_availability local_world no_args mixed_concierge)
          = Inr (Some (merge_availability local_world [local_catalog]))"
    by (simp add: mixed_pattern_LHZ mixed_pattern_BHZ List.map_filter_simps)
  then show ?thesis
    by (simp add: mixed_pattern_LHZ mixed_pattern_BHZ local_merge)
qed

section \<open>Which iterations the loop counter suppresses\<close>

lemma star_arguments_first_only:
  assumes "arg_network a = Some ''*''" and "arg_station a = Some ''*''"
    and "arg_location a = Some ''*''"
  shows "availability_loop w a s 0 (p # ps) [] lg = availability_loop w a s 0 [p] [] lg
       \<and> (station_client s \<noteq> None \<or> availability s \<noteq> None \<longrightarrow>
            fst (get_availability w a (s\<lparr>sncl_patterns := p # ps\<rparr>))
              = fst (get_availability w a (s\<lparr>sncl_patterns := [p]\<rparr>)))"
proof -
  have skip: "availability_loop w a s' (Suc 0) qs frames lg' = (Inr frames, lg')"
    for s' qs frames lg'
    using availability_loop_skips_rest[OF assms, of "Suc 0"] by simp
  have loop: "availability_loop w a s' 0 (p # ps) [] lg' = availability_loop w a s' 0 [p] [] lg'"
    for s' lg'
    by (simp add: skip split: prod.splits sum.splits option.splits)
  have meth: "fst (get_availability w a (s\<lparr>sncl_patterns := p # ps\<rparr>))
              = fst (get_availability w a (s\<lparr>sncl_patterns := [p]\<rparr>))"
    if "station_client s \<noteq> None \<or> availability s \<noteq> None"
  proof -
    have b: "build_availability w a (s\<lparr>sncl_patterns := x\<rparr>) = (None, s\<lparr>sncl_patterns := x\<rparr>)" for x
      using that by (auto simp: build_availability_def)
    obtain r lg1 where R: "availability_loop w a s 0 [p] [] (io_log s) = (r, lg1)"
      by (cases "availability_loop w a s 0 [p] [] (io_log s)")
    have R1: "availability_loop w a (s\<lparr>sncl_patterns := p # ps\<rparr>) 0 (p # ps) [] (io_log s)
                = (r, lg1)"
      by (simp only: loop availability_loop_ignores_patterns R)
    have R2: "availability_loop w a (s\<lparr>sncl_patterns := [p]\<rparr>) 0 [p] [] (io_log s) = (r, lg1)"
      by (simp only: availability_loop_ignores_patterns R)
    show ?thesis
      unfolding get_availability_def b using R1 R2
      by (cases r) (simp_all add: Let_def del: availability_loop.simps)
  qed
  from loop meth show ?thesis by blast
qed

text \<open>
  Claim C6, amended. The suppression is driven by the arguments of the call, not by the
  entries of the pattern list. When the arguments network, station and location are all
  \<^verbatim>\<open>"*"\<close> (so that every pattern resolves to \<^verbatim>\<open>*.*.*.channel\<close>), the pattern loop evaluates
  only the first entry of the list and skips every later iteration, which contributes
  nothing; and when the call has no catalog to build (remote station metadata, or a local
  catalog already stored) the whole call returns what it returns for the first entry alone.
  Without those arguments no iteration is skipped: as long as no entry raises, every entry,
  whatever its shape, is evaluated and the dataframes collected are those of all entries
  that yield rows, in order.
\<close>

theorem availability_loop_suppression_by_arguments:
  "(arg_network a = Some ''*'' \<and> arg_station a = Some ''*'' \<and> arg_location a = Some ''*'' \<longrightarrow>
      availability_loop w a s 0 (p # ps) [] lg = availability_loop w a s 0 [p] [] lg
      \<and> (station_client s \<noteq> None \<or> availability s \<noteq> None \<longrightarrow>
           fst (get_availability w a (s\<lparr>sncl_patterns := p # ps\<rparr>))
             = fst (get_availability w a (s\<lparr>sncl_patterns := [p]\<rparr>))))
   \<and> (\<not> (arg_network a = Some ''*'' \<and> arg_station a = Some ''*'' \<and> arg_location a = Some ''*'') \<longrightarrow>
      (\<forall>q\<in>set (p # ps). \<exists>r. fst (pattern_dataframe w a s q []) = Inr r) \<longrightarrow>
      fst (availability_loop w a s 0 (p # ps) [] lg)
        = Inr (List.map_filter
                 (\<lambda>q. case fst (pattern_dataframe w a s q []) of Inr r \<Rightarrow> r | Inl e \<Rightarrow> None)
                 (p # ps)))"
proof (intro conjI impI)
  assume star: "arg_network a = Some ''*'' \<and> arg_station a = Some ''*'' \<and> arg_location a = Some ''*''"
  then have h: "arg_network a = Some ''*''" "arg_station a = Some ''*''" "arg_location a = Some ''*''"
    by simp_all
  from star_arguments_first_only[OF h, of w s p ps lg]
  show "availability_loop w a s 0 (p # ps) [] lg = availability_loop w a s 0 [p] [] lg"
    by blast
  assume "station_client s \<noteq> None \<or> availability s \<noteq> None"
  with star_arguments_first_only[OF h, of w s p ps lg]
  show "fst (get_availability w a (s\<lparr>sncl_patterns := p # ps\<rparr>))
          = fst (get_availability w a (s\<lparr>sncl_patterns := [p]\<rparr>))"
    by blast
next
  assume ns: "\<not> (arg_network a = Some ''*'' \<and> arg_station a = Some ''*'' \<and> arg_location a = Some ''*'')"
    and ok: "\<forall>q\<in>set (p # ps). \<exists>r. fst (pattern_dataframe w a s q []) = Inr r"
  from availability_loop_collects[OF ns ok, of 0 "[]" lg]
  show "fst (availability_loop w a s 0 (p # ps) [] lg)
        = Inr (List.map_filter
                 (\<lambda>q. case fst (pattern_dataframe w a s q []) of Inr r \<Rightarrow> r | Inl e \<Rightarrow> None)
                 (p # ps))"
    by simp
qed

theorem availability_loop_suppression_by_arguments_witness:
  "fst (get_availability remote_world star_args remote_concierge) = Inr (Some [remote_row ''BHZ''])
   \<and> fst (availability_loop remote_world no_args remote_concierge 0
             [''*.*.*.BHZ'', ''*.*.*.LHZ''] [] [])
       = Inr [[remote_row ''BHZ''], [remote_row ''LHZ'']]"
proof -
  have h: "arg_network star_args = Some ''*'' \<and> arg_station star_args = Some ''*''
           \<and> arg_location star_args = Some ''*''"
    by (simp add: star_args_def)
  have sc: "station_client remote_concierge \<noteq> None \<or> availability remote_concierge \<noteq> None"
    by (simp add: remote_concierge_def)
  have eq: "remote_concierge\<lparr>sncl_patterns := [''*.*.*.BHZ'', ''*.*.*.LHZ'']\<rparr> = remote_concierge"
    by (simp add: remote_concierge_def)
  have b: "build_availability remote_world star_args (remote_concierge\<lparr>sncl_patterns := [''*.*.*.BHZ'']\<rparr>)
             = (None, remote_concierge\<lparr>sncl_patterns := [''*.*.*.BHZ'']\<rparr>)"
    by (simp add: build_availability_def remote_concierge_def)
  have one: "fst (get_availability remote_world star_args
                    (remote_concierge\<lparr>sncl_patterns := [''*.*.*.BHZ'']\<rparr>))
             = Inr (Some [remote_row ''BHZ''])"
    unfolding get_availability_def b
    by (simp add: pattern_dataframe_ignores_patterns remote_pattern_star_BHZ remote_merge_one h
                  Let_def)
  note star = availability_loop_suppression_by_arguments
                [where a = star_args and w = remote_world and s = remote_concierge
                   and p = "''*.*.*.BHZ''" and ps = "[''*.*.*.LHZ'']" and lg = "[]"]
  from star h sc
  have "fst (get_availability remote_world star_args
               (remote_concierge\<lparr>sncl_patterns := [''*.*.*.BHZ'', ''*.*.*.LHZ'']\<rparr>))
        = fst (get_availability remote_world star_args
               (remote_concierge\<lparr>sncl_patterns := [''*.*.*.BHZ'']\<rparr>))"
    by blast
  then have first: "fst (get_availability remote_world star_args remote_concierge)
        = Inr (Some [remote_row ''BHZ''])"
    unfolding eq using one by simp
  have ns: "\<not> (arg_network no_args = Some ''*'' \<and> arg_station no_args = Some ''*''
                \<and> arg_location no_args = Some ''*'')"
    by (simp add: no_args_def)
  have pB: "fst (pattern_dataframe remote_world no_args remote_concierge ''*.*.*.BHZ'' [])
              = Inr (Some [remote_row ''BHZ''])"
    by (simp add: remote_pattern_BHZ)
  have pL: "fst (pattern_dataframe remote_world no_args remote_concierge ''*.*.*.LHZ'' [])
              = Inr (Some [remote_row ''LHZ''])"
    by (simp add: remote_pattern_LHZ)
  have ok: "\<forall>q\<in>set [''*.*.*.BHZ'', ''*.*.*.LHZ''].
              \<exists>r. fst (pattern_dataframe remote_world no_args remote_concierge q []) = Inr r"
    using pB pL by simp
  note all = availability_loop_suppression_by_arguments
                [where a = no_args and w = remote_world and s = remote_concierge
                   and p = "''*.*.*.BHZ''" and ps = "[''*.*.*.LHZ'']" and lg = "[]"]
  from all ns ok
  have "fst (availability_loop remote_world no_args remote_concierge 0
               [''*.*.*.BHZ'', ''*.*.*.LHZ''] [] [])
        = Inr (List.map_filter
                 (\<lambda>q. case fst (pattern_dataframe remote_world no_args remote_concierge q []) of
                         Inr r \<Rightarrow> r | Inl e \<Rightarrow> None)
                 [''*.*.*.BHZ'', ''*.*.*.LHZ''])"
    by blast
  then have second: "fst (availability_loop remote_world no_args remote_concierge 0
               [''*.*.*.BHZ'', ''*.*.*.LHZ''] [] [])
        = Inr [[remote_row ''BHZ''], [remote_row ''LHZ'']]"
    by (simp only: List.map_filter_simps pB pL sum.case option.case)
  from first second show ?thesis by simp
qed

end
